theory Spec2Isabelle
  imports Main "HOL-Library.AList"
begin

section \<open>Text helpers of the presenter\<close>

text \<open>
  A Python \<open>str\<close> is modelled as a HOL \<open>string\<close>, a list of characters with code points
  below 256. The white space of \<open>str.split()\<close> and \<open>str.strip()\<close> in that range is
  tab, line feed, vertical tab, form feed, carriage return, the four separators
  28 to 31, the blank, NEL (133) and the no-break space (160).
\<close>

definition is_space :: "char \<Rightarrow> bool" where
  "is_space c = ((of_char c :: nat) \<in> {9, 10, 11, 12, 13, 28, 29, 30, 31, 32, 133, 160})"

text \<open>\<open>s.strip()\<close>: white space removed at both ends.\<close>

definition lstrip :: "string \<Rightarrow> string" where
  "lstrip s = dropWhile is_space s"

definition rstrip :: "string \<Rightarrow> string" where
  "rstrip s = rev (dropWhile is_space (rev s))"

definition strip :: "string \<Rightarrow> string" where
  "strip s = rstrip (lstrip s)"

text \<open>
  \<open>s.split()\<close>: the maximal runs of characters that are not white space, in order.
  \<open>split_from cur s\<close> scans \<open>s\<close> with the word read so far in \<open>cur\<close>.
\<close>

fun split_from :: "string \<Rightarrow> string \<Rightarrow> string list" where
  "split_from cur [] = (if cur = [] then [] else [cur])"
| "split_from cur (c # cs) =
     (if is_space c then (if cur = [] then split_from [] cs else cur # split_from [] cs)
      else split_from (cur @ [c]) cs)"

definition py_split :: "string \<Rightarrow> string list" where
  "py_split s = split_from [] s"

text \<open>A word of \<open>s.split()\<close>: not empty, no white space in it.\<close>

definition proper_word :: "string \<Rightarrow> bool" where
  "proper_word w = (w \<noteq> [] \<and> (\<forall>c\<in>set w. \<not> is_space c))"

text \<open>
  \<open>re.sub(r"<[^>]+>", "", html)\<close>: the scan goes from left to right. At a \<open><\<close> the
  pattern matches when at least one character other than \<open>>\<close> follows and a \<open>>\<close> closes
  the run (the class \<open>[^>]\<close> also takes \<open><\<close> and line breaks, and cannot step over the first
  \<open>>\<close>); the match is dropped and the scan goes on behind it. Where nothing matches the
  character is kept.
\<close>

function sub_tags :: "string \<Rightarrow> string" where
  "sub_tags [] = []"
| "sub_tags (c # cs) =
     (if c = CHR ''<'' \<and> takeWhile (\<lambda>x. x \<noteq> CHR ''>'') cs \<noteq> []
          \<and> dropWhile (\<lambda>x. x \<noteq> CHR ''>'') cs \<noteq> []
      then sub_tags (tl (dropWhile (\<lambda>x. x \<noteq> CHR ''>'') cs))
      else c # sub_tags cs)"
  by pat_completeness auto
termination
proof (relation "measure length")
  show "wf (measure length)" by simp
next
  fix c :: char and cs :: string
  have "length (tl (dropWhile (\<lambda>x. x \<noteq> CHR ''>'') cs)) \<le> length cs"
    using length_dropWhile_le [of "\<lambda>x. x \<noteq> CHR ''>''" cs] by simp
  then show "(tl (dropWhile (\<lambda>x. x \<noteq> CHR ''>'') cs), c # cs) \<in> measure length"
    by simp
next
  fix c :: char and cs :: string
  show "(cs, c # cs) \<in> measure length" by simp
qed

definition strip_html_tags :: "string \<Rightarrow> string" where
  "strip_html_tags html = strip (sub_tags html)"

text \<open>
  \<open>wrap_text\<close>: the loop over the words, with \<open>lines\<close> and \<open>current_line\<close> as its
  state. The width is a Python \<open>int\<close>.
\<close>

fun wrap_loop :: "int \<Rightarrow> string \<Rightarrow> string list \<Rightarrow> string \<Rightarrow> string list \<Rightarrow> string list \<times> string" where
  "wrap_loop width indent lines current_line [] = (lines, current_line)"
| "wrap_loop width indent lines current_line (word # words) =
     (if int (length current_line) + int (length word) + 1 > width
      then wrap_loop width indent (lines @ [current_line]) (indent @ word) words
      else if current_line = indent
      then wrap_loop width indent lines (current_line @ word) words
      else wrap_loop width indent lines (current_line @ '' '' @ word) words)"

definition wrap_text :: "string \<Rightarrow> int \<Rightarrow> string \<Rightarrow> string list" where
  "wrap_text text width indent =
     (case wrap_loop width indent [] indent (py_split text) of
        (lines, current_line) \<Rightarrow>
          if strip current_line \<noteq> [] then lines @ [current_line] else lines)"

text \<open>The call \<open>wrap_text(text)\<close> with the default width and indentation.\<close>

definition wrap_text_default :: "string \<Rightarrow> string list" where
  "wrap_text_default text = wrap_text text 80 ''  ''"

section \<open>Python values\<close>

subsection \<open>Floats\<close>

text \<open>
  A Python \<open>float\<close> is an IEEE double: a signed infinity, a NaN, or a finite value
  \<open>\<plusminus> m * 2 ^ e\<close>, kept as sign, mantissa and exponent (the sign also tells \<open>-0.0\<close> from
  \<open>0.0\<close>). Sums and differences are rounded to 53 bits, ties to even, as the hardware
  does.
\<close>

datatype pyfloat = Finite bool nat int | Infinite bool | NaN

fun bitlen :: "nat \<Rightarrow> nat" where
  "bitlen n = (if n = 0 then 0 else Suc (bitlen (n div 2)))"

declare bitlen.simps [simp del]

text \<open>\<open>m / 2 ^ k\<close> rounded to the nearest natural number, a tie to the even one.\<close>

definition rshift_rne :: "nat \<Rightarrow> nat \<Rightarrow> nat" where
  "rshift_rne m k =
     (let q = m div 2 ^ k; r = 2 * (m mod 2 ^ k) in
      if r > 2 ^ k \<or> (r = 2 ^ k \<and> odd q) then q + 1 else q)"

definition round53 :: "bool \<Rightarrow> nat \<Rightarrow> int \<Rightarrow> pyfloat" where
  "round53 neg m e =
     (let k = bitlen m - 53; m' = rshift_rne m k; e' = e + int k in
      if int (bitlen m') + e' > 1024 then Infinite neg else Finite neg m' e')"

fun float_neg :: "pyfloat \<Rightarrow> pyfloat" where
  "float_neg (Finite s m e) = Finite (\<not> s) m e"
| "float_neg (Infinite s) = Infinite (\<not> s)"
| "float_neg NaN = NaN"

definition signed :: "bool \<Rightarrow> nat \<Rightarrow> int" where
  "signed s m = (if s then - int m else int m)"

fun float_add :: "pyfloat \<Rightarrow> pyfloat \<Rightarrow> pyfloat" where
  "float_add NaN y = NaN"
| "float_add (Infinite s) NaN = NaN"
| "float_add (Finite s m e) NaN = NaN"
| "float_add (Infinite s) (Infinite t) = (if s = t then Infinite s else NaN)"
| "float_add (Infinite s) (Finite t m e) = Infinite s"
| "float_add (Finite s m e) (Infinite t) = Infinite t"
| "float_add (Finite s1 m1 e1) (Finite s2 m2 e2) =
     (let e = min e1 e2;
          total = signed s1 m1 * 2 ^ nat (e1 - e) + signed s2 m2 * 2 ^ nat (e2 - e)
      in if total = 0 then Finite (s1 \<and> s2) 0 e
         else round53 (total < 0) (nat \<bar>total\<bar>) e)"

definition float_sub :: "pyfloat \<Rightarrow> pyfloat \<Rightarrow> pyfloat" where
  "float_sub x y = float_add x (float_neg y)"

text \<open>\<open>x == n\<close> for a float and an int: the values are compared exactly.\<close>

fun float_eq_int :: "pyfloat \<Rightarrow> int \<Rightarrow> bool" where
  "float_eq_int (Finite s m e) n =
     (if e \<ge> 0 then signed s m * 2 ^ nat e = n else signed s m = n * 2 ^ nat (- e))"
| "float_eq_int (Infinite s) n = False"
| "float_eq_int NaN n = False"

subsection \<open>Decimal text\<close>

definition digit_char :: "nat \<Rightarrow> char" where
  "digit_char d = ''0123456789'' ! d"

fun str_nat :: "nat \<Rightarrow> string" where
  "str_nat n = (if n < 10 then [digit_char n] else str_nat (n div 10) @ [digit_char (n mod 10)])"

declare str_nat.simps [simp del]

definition str_int :: "int \<Rightarrow> string" where
  "str_int i = (if i < 0 then ''-'' @ str_nat (nat (- i)) else str_nat (nat i))"

text \<open>
  \<open>format(x, ".pf")\<close> for a float: the exact value rounded to \<open>p\<close> decimals, a tie to the
  even digit; the sign is written for every negative float, also when the digits are
  all zero; no decimal point when \<open>p\<close> is 0.
\<close>

definition fixed_digits :: "nat \<Rightarrow> nat \<Rightarrow> string" where
  "fixed_digits p n =
     str_nat (n div 10 ^ p) @
     (if p = 0 then []
      else ''.'' @ replicate (p - length (str_nat (n mod 10 ^ p))) CHR ''0''
                @ str_nat (n mod 10 ^ p))"

fun float_format_f :: "nat \<Rightarrow> pyfloat \<Rightarrow> string" where
  "float_format_f p (Finite s m e) =
     (if s then ''-'' else []) @
     fixed_digits p (if e \<ge> 0 then m * 2 ^ nat e * 10 ^ p
                     else rshift_rne (m * 10 ^ p) (nat (- e)))"
| "float_format_f p (Infinite s) = (if s then ''-inf'' else ''inf'')"
| "float_format_f p NaN = ''nan''"

subsection \<open>Decoded JSON\<close>

text \<open>
  What \<open>resp.json()\<close> returns: \<open>None\<close>, a \<open>bool\<close>, an \<open>int\<close>, a \<open>float\<close>, a \<open>str\<close>, a
  \<open>list\<close> or a \<open>dict\<close> with \<open>str\<close> keys. A dict is an association list in insertion
  order; a lookup takes the first binding of the key.
\<close>

datatype json =
    JNull
  | JBool bool
  | JInt int
  | JFloat pyfloat
  | JStr string
  | JArr "json list"
  | JObj "(string \<times> json) list"

text \<open>The exceptions that the program and the calls it makes can raise.\<close>

datatype error =
    HTTPError nat
  | RequestException
  | JSONDecodeError
  | KeyError string
  | TypeError
  | AttributeError
  | ValueError
  | OverflowError
  | IndexError
  | PyException string
  | ProductNotFoundError string

text \<open>
  The class of each exception. \<open>HTTPError\<close> is \<open>requests.exceptions.HTTPError\<close>, raised
  by \<open>raise_for_status()\<close> with the status code; \<open>RequestException\<close> stands for a failure
  of the transport inside \<open>requests\<close>; \<open>PyException\<close> is the built-in class \<open>Exception\<close>
  itself, raised with a message.
\<close>

fun class_name :: "error \<Rightarrow> string" where
  "class_name (HTTPError s) = ''HTTPError''"
| "class_name RequestException = ''RequestException''"
| "class_name JSONDecodeError = ''JSONDecodeError''"
| "class_name (KeyError k) = ''KeyError''"
| "class_name TypeError = ''TypeError''"
| "class_name AttributeError = ''AttributeError''"
| "class_name ValueError = ''ValueError''"
| "class_name OverflowError = ''OverflowError''"
| "class_name IndexError = ''IndexError''"
| "class_name (PyException m) = ''Exception''"
| "class_name (ProductNotFoundError m) = ''ProductNotFoundError''"

text \<open>Sequencing of computations that may raise.\<close>

definition ebind :: "error + 'a \<Rightarrow> ('a \<Rightarrow> error + 'b) \<Rightarrow> error + 'b" where
  "ebind m f = (case m of Inl e \<Rightarrow> Inl e | Inr x \<Rightarrow> f x)"

text \<open>Truth value of an object, as \<open>if x\<close> and \<open>not x\<close> take it.\<close>

fun py_truthy :: "json \<Rightarrow> bool" where
  "py_truthy JNull = False"
| "py_truthy (JBool b) = b"
| "py_truthy (JInt i) = (i \<noteq> 0)"
| "py_truthy (JFloat (Finite s m e)) = (m \<noteq> 0)"
| "py_truthy (JFloat (Infinite s)) = True"
| "py_truthy (JFloat NaN) = True"
| "py_truthy (JStr s) = (s \<noteq> [])"
| "py_truthy (JArr xs) = (xs \<noteq> [])"
| "py_truthy (JObj kvs) = (kvs \<noteq> [])"

text \<open>\<open>d.get(key, default)\<close>: only a dict has the method.\<close>

fun py_get :: "json \<Rightarrow> string \<Rightarrow> json \<Rightarrow> error + json" where
  "py_get (JObj kvs) k d = Inr (case map_of kvs k of Some v \<Rightarrow> v | None \<Rightarrow> d)"
| "py_get JNull k d = Inl AttributeError"
| "py_get (JBool b) k d = Inl AttributeError"
| "py_get (JInt i) k d = Inl AttributeError"
| "py_get (JFloat f) k d = Inl AttributeError"
| "py_get (JStr s) k d = Inl AttributeError"
| "py_get (JArr xs) k d = Inl AttributeError"

text \<open>\<open>d[key]\<close> with a \<open>str\<close> key.\<close>

fun py_getitem :: "json \<Rightarrow> string \<Rightarrow> error + json" where
  "py_getitem (JObj kvs) k = (case map_of kvs k of Some v \<Rightarrow> Inr v | None \<Rightarrow> Inl (KeyError k))"
| "py_getitem JNull k = Inl TypeError"
| "py_getitem (JBool b) k = Inl TypeError"
| "py_getitem (JInt i) k = Inl TypeError"
| "py_getitem (JFloat f) k = Inl TypeError"
| "py_getitem (JStr s) k = Inl TypeError"
| "py_getitem (JArr xs) k = Inl TypeError"

text \<open>\<open>k in x\<close> for a \<open>str\<close> \<open>k\<close>: a key of a dict, an element of a list, a part of a str.\<close>

fun has_substr :: "string \<Rightarrow> string \<Rightarrow> bool" where
  "has_substr k [] = (k = [])"
| "has_substr k (c # cs) = (take (length k) (c # cs) = k \<or> has_substr k cs)"

fun py_contains :: "string \<Rightarrow> json \<Rightarrow> error + bool" where
  "py_contains k (JObj kvs) = Inr (k \<in> set (map fst kvs))"
| "py_contains k (JArr xs) = Inr (JStr k \<in> set xs)"
| "py_contains k (JStr s) = Inr (has_substr k s)"
| "py_contains k JNull = Inl TypeError"
| "py_contains k (JBool b) = Inl TypeError"
| "py_contains k (JInt i) = Inl TypeError"
| "py_contains k (JFloat f) = Inl TypeError"

text \<open>The keys of a dict, each once, in the order of their first binding.\<close>

definition dict_keys :: "(string \<times> json) list \<Rightarrow> string list" where
  "dict_keys kvs = rev (remdups (rev (map fst kvs)))"

text \<open>
  \<open>for x in v\<close>: the elements of a list, the keys of a dict, the characters of a str.
\<close>

fun py_iter :: "json \<Rightarrow> error + json list" where
  "py_iter (JArr xs) = Inr xs"
| "py_iter (JObj kvs) = Inr (map JStr (dict_keys kvs))"
| "py_iter (JStr s) = Inr (map (\<lambda>c. JStr [c]) s)"
| "py_iter JNull = Inl TypeError"
| "py_iter (JBool b) = Inl TypeError"
| "py_iter (JInt i) = Inl TypeError"
| "py_iter (JFloat f) = Inl TypeError"

text \<open>\<open>len(v)\<close>.\<close>

fun py_len :: "json \<Rightarrow> error + nat" where
  "py_len (JArr xs) = Inr (length xs)"
| "py_len (JObj kvs) = Inr (length (dict_keys kvs))"
| "py_len (JStr s) = Inr (length s)"
| "py_len JNull = Inl TypeError"
| "py_len (JBool b) = Inl TypeError"
| "py_len (JInt i) = Inl TypeError"
| "py_len (JFloat f) = Inl TypeError"

text \<open>\<open>v == s\<close> for a str \<open>s\<close>, and \<open>v == n\<close> for an int \<open>n\<close> (\<open>True\<close> is 1, \<open>False\<close> is 0).\<close>

definition py_eq_str :: "json \<Rightarrow> string \<Rightarrow> bool" where
  "py_eq_str v s = (v = JStr s)"

fun py_eq_int :: "json \<Rightarrow> int \<Rightarrow> bool" where
  "py_eq_int (JInt i) n = (i = n)"
| "py_eq_int (JBool b) n = ((if b then 1 else 0) = n)"
| "py_eq_int (JFloat f) n = float_eq_int f n"
| "py_eq_int JNull n = False"
| "py_eq_int (JStr s) n = False"
| "py_eq_int (JArr xs) n = False"
| "py_eq_int (JObj kvs) n = False"

text \<open>
  \<open>str(v)\<close>, which an f-string applies to a field without a format. The text of a str,
  an int, a bool and \<open>None\<close> is given here; the text of a float, a list and a dict is the
  interpreter's \<open>repr\<close>, which is not part of the program: it is the parameter \<open>rp\<close> of
  every function that writes values out.
\<close>

fun py_str :: "(json \<Rightarrow> string) \<Rightarrow> json \<Rightarrow> string" where
  "py_str rp (JStr s) = s"
| "py_str rp (JInt i) = str_int i"
| "py_str rp (JBool b) = (if b then ''True'' else ''False'')"
| "py_str rp JNull = ''None''"
| "py_str rp (JFloat f) = rp (JFloat f)"
| "py_str rp (JArr xs) = rp (JArr xs)"
| "py_str rp (JObj kvs) = rp (JObj kvs)"

text \<open>Numbers: an int, a bool (an int in arithmetic) or a float.\<close>

datatype pynum = NInt int | NFloat pyfloat

fun as_num :: "json \<Rightarrow> pynum option" where
  "as_num (JInt i) = Some (NInt i)"
| "as_num (JBool b) = Some (NInt (if b then 1 else 0))"
| "as_num (JFloat f) = Some (NFloat f)"
| "as_num JNull = None"
| "as_num (JStr s) = None"
| "as_num (JArr xs) = None"
| "as_num (JObj kvs) = None"

text \<open>\<open>float(i)\<close>: the nearest double; \<open>OverflowError\<close> beyond the range.\<close>

definition float_of_int :: "int \<Rightarrow> error + pyfloat" where
  "float_of_int i =
     (case round53 (i < 0) (nat \<bar>i\<bar>) 0 of
        Infinite s \<Rightarrow> Inl OverflowError
      | f \<Rightarrow> Inr f)"

text \<open>\<open>x - y\<close> and \<open>x + y\<close>. A float on one side converts an int on the other.\<close>

fun num_sub :: "pynum \<Rightarrow> pynum \<Rightarrow> error + json" where
  "num_sub (NInt a) (NInt b) = Inr (JInt (a - b))"
| "num_sub (NFloat x) (NFloat y) = Inr (JFloat (float_sub x y))"
| "num_sub (NFloat x) (NInt b) = ebind (float_of_int b) (\<lambda>y. Inr (JFloat (float_sub x y)))"
| "num_sub (NInt a) (NFloat y) = ebind (float_of_int a) (\<lambda>x. Inr (JFloat (float_sub x y)))"

fun num_add :: "pynum \<Rightarrow> pynum \<Rightarrow> error + json" where
  "num_add (NInt a) (NInt b) = Inr (JInt (a + b))"
| "num_add (NFloat x) (NFloat y) = Inr (JFloat (float_add x y))"
| "num_add (NFloat x) (NInt b) = ebind (float_of_int b) (\<lambda>y. Inr (JFloat (float_add x y)))"
| "num_add (NInt a) (NFloat y) = ebind (float_of_int a) (\<lambda>x. Inr (JFloat (float_add x y)))"

definition py_sub :: "json \<Rightarrow> json \<Rightarrow> error + json" where
  "py_sub x y =
     (case (as_num x, as_num y) of
        (Some a, Some b) \<Rightarrow> num_sub a b
      | _ \<Rightarrow> Inl TypeError)"

text \<open>
  \<open>acc + x\<close> where \<open>acc\<close> is a running total that starts at the int 0, so that it is a
  number whenever the sum is taken.
\<close>

definition py_add :: "json \<Rightarrow> json \<Rightarrow> error + json" where
  "py_add x y =
     (case (as_num x, as_num y) of
        (Some a, Some b) \<Rightarrow> num_add a b
      | _ \<Rightarrow> Inl TypeError)"

text \<open>
  \<open>format(v, ".pf")\<close>, the \<open>{v:.2f}\<close> and \<open>{v:.0f}\<close> of the f-strings: an int or a bool is
  converted to a float first; a str raises \<open>ValueError\<close>; \<open>None\<close>, a list and a dict
  raise \<open>TypeError\<close>.
\<close>

fun py_format_f :: "nat \<Rightarrow> json \<Rightarrow> error + string" where
  "py_format_f p (JFloat f) = Inr (float_format_f p f)"
| "py_format_f p (JInt i) = ebind (float_of_int i) (\<lambda>f. Inr (float_format_f p f))"
| "py_format_f p (JBool b) = Inr (float_format_f p (Finite False (if b then 1 else 0) 0))"
| "py_format_f p (JStr s) = Inl ValueError"
| "py_format_f p JNull = Inl TypeError"
| "py_format_f p (JArr xs) = Inl TypeError"
| "py_format_f p (JObj kvs) = Inl TypeError"

text \<open>The value \<open>d.get(k, dflt)\<close> finds in the dict with the bindings \<open>kvs\<close>.\<close>

definition field :: "(string \<times> json) list \<Rightarrow> string \<Rightarrow> json \<Rightarrow> json" where
  "field kvs k dflt = (case map_of kvs k of Some v \<Rightarrow> v | None \<Rightarrow> dflt)"

fun is_dict :: "json \<Rightarrow> bool" where
  "is_dict (JObj kvs) = True"
| "is_dict JNull = False"
| "is_dict (JBool b) = False"
| "is_dict (JInt i) = False"
| "is_dict (JFloat f) = False"
| "is_dict (JStr s) = False"
| "is_dict (JArr xs) = False"

text \<open>
  The values that \<open>{v:.2f}\<close> accepts: a float, a bool, and an int that \<open>float()\<close> can
  convert.
\<close>

definition formats_f :: "json \<Rightarrow> bool" where
  "formats_f v = (case py_format_f 2 v of Inl e \<Rightarrow> False | Inr t \<Rightarrow> True)"

text \<open>
  A \<open>repr\<close> for the worked examples below, none of which writes out a float, a list or
  a dict.
\<close>

definition plain_repr :: "json \<Rightarrow> string" where
  "plain_repr v = []"

section \<open>Presenter\<close>

text \<open>
  The formatters are pure: each takes decoded JSON and returns the text, or raises.
  Fields are read with \<open>get\<close> and a default, in the order of the source; the f-string
  is then filled from left to right.
\<close>

definition newline :: string where
  "newline = [CHR 0x0A]"

text \<open>\<open>"\n".join(lines)\<close> for a list of strs.\<close>

fun join_lines :: "string list \<Rightarrow> string" where
  "join_lines [] = []"
| "join_lines [l] = l"
| "join_lines (l # m # ls) = l @ newline @ join_lines (m # ls)"

text \<open>\<open>s.split("T")\<close> for a str: the pieces between the separators, at least one.\<close>

fun split_on :: "char \<Rightarrow> string \<Rightarrow> string list" where
  "split_on sep [] = [[]]"
| "split_on sep (c # cs) =
     (if c = sep then [] # split_on sep cs
      else (case split_on sep cs of
              [] \<Rightarrow> [[c]]
            | piece # pieces \<Rightarrow> (c # piece) # pieces))"

text \<open>\<open>v.split("T")\<close>: only a str has the method.\<close>

fun py_split_T :: "json \<Rightarrow> error + string list" where
  "py_split_T (JStr s) = Inr (split_on CHR ''T'' s)"
| "py_split_T JNull = Inl AttributeError"
| "py_split_T (JBool b) = Inl AttributeError"
| "py_split_T (JInt i) = Inl AttributeError"
| "py_split_T (JFloat f) = Inl AttributeError"
| "py_split_T (JArr xs) = Inl AttributeError"
| "py_split_T (JObj kvs) = Inl AttributeError"

text \<open>\<open>xs[0]\<close> and \<open>xs[1]\<close> of a list of strs.\<close>

fun item0 :: "string list \<Rightarrow> error + string" where
  "item0 [] = Inl IndexError"
| "item0 (x # xs) = Inr x"

fun item1 :: "string list \<Rightarrow> error + string" where
  "item1 [] = Inl IndexError"
| "item1 [x] = Inl IndexError"
| "item1 (x # y # xs) = Inr y"

subsection \<open>\<open>format_product\<close>\<close>

definition format_product :: "(json \<Rightarrow> string) \<Rightarrow> json \<Rightarrow> error + string" where
  "format_product rp product =
     ebind (py_get product ''Price'' (JInt 0)) (\<lambda>price.
     ebind (py_get product ''Name'' (JStr ''Unknown'')) (\<lambda>name.
     ebind (py_get product ''Brand'' (JStr '''')) (\<lambda>brand.
     ebind (py_get product ''Description'' (JStr '''')) (\<lambda>description.
     ebind (py_get product ''Id'' (JStr '''')) (\<lambda>product_id.
     ebind (py_get product ''PrimaryImage'' (JStr '''')) (\<lambda>image_url.
     ebind (py_get product ''Availability'' (JObj [])) (\<lambda>availability.
     ebind (py_get availability ''IsAvailableInStock'' (JBool False)) (\<lambda>available.
     ebind (py_format_f 2 price) (\<lambda>price_text.
       let availability_str = (if py_truthy available then ''In stock'' else ''OUT OF STOCK'');
           line = ''  ['' @ py_str rp product_id @ ''] '' @ py_str rp name
                  @ '' ('' @ py_str rp brand @ '') - '' @ price_text @ '' kr - ''
                  @ py_str rp description @ '' ['' @ availability_str @ '']''
       in Inr (if py_truthy image_url
               then line @ newline @ ''    Image: '' @ py_str rp image_url
               else line))))))))))"

subsection \<open>\<open>format_basket_line\<close>\<close>

definition format_basket_line :: "(json \<Rightarrow> string) \<Rightarrow> json \<Rightarrow> error + string" where
  "format_basket_line rp line =
     ebind (py_get line ''Name'' (JStr ''Unknown'')) (\<lambda>name.
     ebind (py_get line ''Brand'' (JStr '''')) (\<lambda>brand.
     ebind (py_get line ''Quantity'' (JInt 0)) (\<lambda>quantity.
     ebind (py_get line ''ItemPrice'' (JInt 0)) (\<lambda>item_price.
     ebind (py_get line ''Price'' (JInt 0)) (\<lambda>total_price.
     ebind (py_get line ''Id'' (JStr '''')) (\<lambda>product_id.
     ebind (py_format_f 2 item_price) (\<lambda>item_price_text.
     ebind (py_format_f 2 total_price) (\<lambda>total_price_text.
       Inr (''  ['' @ py_str rp product_id @ ''] '' @ py_str rp name
            @ '' ('' @ py_str rp brand @ '') x'' @ py_str rp quantity
            @ '' @ '' @ item_price_text @ '' kr = '' @ total_price_text @ '' kr'')))))))))"

subsection \<open>\<open>format_order_summary\<close>\<close>

text \<open>
  \<open>ORDER_STATUS_MAP.get(status_code, default)\<close>: the keys are the ints 1, 2 and 4; a
  float or a bool of the same value finds them; a list or a dict is not hashable.
\<close>

fun order_status :: "json \<Rightarrow> string \<Rightarrow> error + string" where
  "order_status (JArr xs) dflt = Inl TypeError"
| "order_status (JObj kvs) dflt = Inl TypeError"
| "order_status JNull dflt = Inr dflt"
| "order_status (JStr s) dflt = Inr dflt"
| "order_status (JInt i) dflt =
     Inr (if py_eq_int (JInt i) 1 then ''Pending''
          else if py_eq_int (JInt i) 2 then ''Processing''
          else if py_eq_int (JInt i) 4 then ''Delivered'' else dflt)"
| "order_status (JBool b) dflt =
     Inr (if py_eq_int (JBool b) 1 then ''Pending''
          else if py_eq_int (JBool b) 2 then ''Processing''
          else if py_eq_int (JBool b) 4 then ''Delivered'' else dflt)"
| "order_status (JFloat f) dflt =
     Inr (if py_eq_int (JFloat f) 1 then ''Pending''
          else if py_eq_int (JFloat f) 2 then ''Processing''
          else if py_eq_int (JFloat f) 4 then ''Delivered'' else dflt)"

text \<open>\<open>v.split("T")[1][:5] if "T" in v else ""\<close> and \<open>v.split("T")[0] if "T" in v else ""\<close>.\<close>

definition time_part :: "json \<Rightarrow> error + string" where
  "time_part v =
     ebind (py_contains ''T'' v) (\<lambda>has_T.
       if has_T
       then ebind (py_split_T v) (\<lambda>pieces. ebind (item1 pieces) (\<lambda>t. Inr (take 5 t)))
       else Inr '''')"

definition date_part_of :: "json \<Rightarrow> error + string" where
  "date_part_of v =
     ebind (py_contains ''T'' v) (\<lambda>has_T.
       if has_T then ebind (py_split_T v) item0 else Inr '''')"

definition format_order_summary :: "(json \<Rightarrow> string) \<Rightarrow> json \<Rightarrow> error + string" where
  "format_order_summary rp order =
     ebind (py_get order ''OrderNumber'' (JStr ''Unknown'')) (\<lambda>order_num.
     ebind (py_get order ''Id'' (JStr '''')) (\<lambda>order_id.
     ebind (py_get order ''Total'' (JInt 0)) (\<lambda>total.
     ebind (py_get order ''Status'' (JInt 0)) (\<lambda>status_code.
     ebind (py_get order ''OrderDate'' (JStr '''')) (\<lambda>order_date.
     ebind (if py_truthy order_date then ebind (py_split_T order_date) item0
            else Inr ''Unknown'') (\<lambda>date_part.
     ebind (order_status status_code (''Status '' @ py_str rp status_code)) (\<lambda>status.
     ebind (py_get order ''DeliveryTime'' (JObj [])) (\<lambda>delivery_time.
     ebind (py_get delivery_time ''Start'' (JStr '''')) (\<lambda>delivery_start.
     ebind (py_get delivery_time ''End'' (JStr '''')) (\<lambda>delivery_end.
     ebind (if py_truthy delivery_start \<and> py_truthy delivery_end
            then ebind (time_part delivery_start) (\<lambda>start_time.
                 ebind (time_part delivery_end) (\<lambda>end_time.
                 ebind (date_part_of delivery_start) (\<lambda>delivery_date.
                   Inr (delivery_date @ '' '' @ start_time @ ''-'' @ end_time))))
            else Inr ''N/A'') (\<lambda>delivery_str.
     ebind (py_format_f 2 total) (\<lambda>total_text.
       Inr (''  ['' @ py_str rp order_id @ ''] '' @ py_str rp order_num @ '' - ''
            @ date_part @ '' - '' @ total_text @ '' kr - '' @ status
            @ '' - Delivery: '' @ delivery_str)))))))))))))"

subsection \<open>\<open>format_order_line\<close>\<close>

definition format_order_line :: "(json \<Rightarrow> string) \<Rightarrow> json \<Rightarrow> error + string" where
  "format_order_line rp line =
     ebind (py_get line ''ProductName'' (JStr ''Unknown'')) (\<lambda>name.
     ebind (py_get line ''Quantity'' (JInt 0)) (\<lambda>quantity.
     ebind (py_get line ''Amount'' (JInt 0)) (\<lambda>amount.
     ebind (py_get line ''AverageItemPrice'' (JInt 0)) (\<lambda>avg_price.
     ebind (py_get line ''ProductNumber'' (JStr '''')) (\<lambda>product_num.
     ebind (py_get line ''Description'' (JStr '''')) (\<lambda>description.
     ebind (py_get line ''HasCampaign'' (JBool False)) (\<lambda>has_campaign.
     ebind (py_format_f 0 quantity) (\<lambda>quantity_text.
     ebind (py_format_f 2 avg_price) (\<lambda>avg_price_text.
     ebind (py_format_f 2 amount) (\<lambda>amount_text.
       let campaign_str = (if py_truthy has_campaign then '' [OFFER]'' else '''')
       in Inr (''  ['' @ py_str rp product_num @ ''] '' @ py_str rp name @ '' - ''
               @ py_str rp description @ '' x'' @ quantity_text @ '' @ ''
               @ avg_price_text @ '' kr = '' @ amount_text @ '' kr'' @ campaign_str)))))))))))"

subsection \<open>\<open>format_order_details\<close>\<close>

text \<open>Each element of a list through a function that may raise, stopping at the first raise.\<close>

fun emap :: "('a \<Rightarrow> error + 'b) \<Rightarrow> 'a list \<Rightarrow> error + 'b list" where
  "emap f [] = Inr []"
| "emap f (x # xs) = ebind (f x) (\<lambda>y. ebind (emap f xs) (\<lambda>ys. Inr (y # ys)))"

text \<open>
  \<open>sum(line.get(key, 0) for line in lines)\<close> and the loop \<open>total += line.get(key, 0)\<close>:
  the total starts at the int 0 and takes one amount after the other. (From version 3.12
  on the built-in \<open>sum\<close> adds floats with a compensated sum, which can change the last
  bit of a float total; what is summed and whether the sum raises are the same.)
\<close>

fun sum_field :: "string \<Rightarrow> json \<Rightarrow> json list \<Rightarrow> error + json" where
  "sum_field key acc [] = Inr acc"
| "sum_field key acc (line # lines) =
     ebind (py_get line key (JInt 0)) (\<lambda>amount.
     ebind (py_add acc amount) (\<lambda>acc'. sum_field key acc' lines))"

text \<open>The list \<open>output\<close> that \<open>format_order_details\<close> builds.\<close>

definition order_details_output :: "(json \<Rightarrow> string) \<Rightarrow> json \<Rightarrow> json \<Rightarrow> error + string list" where
  "order_details_output rp order lines =
     ebind (py_get order ''OrderNumber'' (JStr ''Unknown'')) (\<lambda>order_num.
     ebind (py_get order ''Id'' (JStr '''')) (\<lambda>order_id.
     ebind (py_get order ''Total'' (JInt 0)) (\<lambda>total.
     ebind (py_get order ''SubTotal'' (JInt 0)) (\<lambda>subtotal.
     ebind (py_sub total subtotal) (\<lambda>delivery_fee.
     ebind (py_format_f 2 subtotal) (\<lambda>subtotal_text.
     ebind (py_format_f 2 delivery_fee) (\<lambda>delivery_fee_text.
     ebind (py_format_f 2 total) (\<lambda>total_text.
     ebind (py_len lines) (\<lambda>n.
     ebind (py_iter lines) (\<lambda>line_list.
     ebind (emap (format_order_line rp) line_list) (\<lambda>line_texts.
     ebind (sum_field ''Amount'' (JInt 0) line_list) (\<lambda>line_total.
     ebind (py_format_f 2 line_total) (\<lambda>line_total_text.
       Inr ([''Order '' @ py_str rp order_num,
             replicate (length (''Order '' @ py_str rp order_num)) CHR ''='',
             '''',
             ''Order ID:     '' @ py_str rp order_id,
             ''Subtotal:     '' @ subtotal_text @ '' kr'',
             ''Delivery:     '' @ delivery_fee_text @ '' kr'',
             ''Total:        '' @ total_text @ '' kr'',
             '''',
             ''Items ('' @ str_nat n @ ''):'']
            @ line_texts
            @ ['''', ''  Lines total: '' @ line_total_text @ '' kr'']))))))))))))))"

definition format_order_details :: "(json \<Rightarrow> string) \<Rightarrow> json \<Rightarrow> json \<Rightarrow> error + string" where
  "format_order_details rp order lines =
     ebind (order_details_output rp order lines) (\<lambda>output. Inr (join_lines output))"

section \<open>The remote service and the session\<close>

text \<open>
  A request as \<open>requests\<close> sends it. Header values and query parameters are kept as the
  Python objects the program passes; \<open>requests\<close> refuses a header whose value is not a
  str before anything is sent.
\<close>

record request =
  req_method :: string
  req_url :: string
  req_headers :: "(string \<times> json) list"
  req_params :: "(string \<times> json) list"
  req_json :: "json option"

text \<open>
  A response: the status code and the decoded body, \<open>None\<close> when the body is not JSON.
\<close>

record response =
  status_code :: nat
  body :: "json option"

text \<open>
  The world outside the program: the remote service, which answers a request in the
  light of all earlier ones (cookies and server state) or does not answer at all; the
  requests sent so far; and the random source behind \<open>uuid.uuid4()\<close>, as the sequence
  of identifiers it will produce and the number already drawn.
\<close>

record world =
  remote :: "request list \<Rightarrow> request \<Rightarrow> response option"
  sent :: "request list"
  uuid_source :: "nat \<Rightarrow> string"
  uuid_drawn :: nat

type_synonym 'a io = "world \<Rightarrow> (error + 'a) \<times> world"

definition io_return :: "'a \<Rightarrow> 'a io" where
  "io_return x = (\<lambda>w. (Inr x, w))"

definition io_raise :: "error \<Rightarrow> 'a io" where
  "io_raise e = (\<lambda>w. (Inl e, w))"

definition io_bind :: "'a io \<Rightarrow> ('a \<Rightarrow> 'b io) \<Rightarrow> 'b io" where
  "io_bind m f = (\<lambda>w. case m w of (Inl e, w') \<Rightarrow> (Inl e, w') | (Inr x, w') \<Rightarrow> f x w')"

text \<open>A pure computation that may raise, inside a sequence of requests.\<close>

definition io_of :: "error + 'a \<Rightarrow> 'a io" where
  "io_of r = (\<lambda>w. (r, w))"

text \<open>\<open>str(uuid.uuid4())\<close>.\<close>

definition uuid4 :: "string io" where
  "uuid4 = (\<lambda>w. (Inr (uuid_source w (uuid_drawn w)), w\<lparr>uuid_drawn := Suc (uuid_drawn w)\<rparr>))"

fun is_str :: "json \<Rightarrow> bool" where
  "is_str (JStr s) = True"
| "is_str JNull = False"
| "is_str (JBool b) = False"
| "is_str (JInt i) = False"
| "is_str (JFloat f) = False"
| "is_str (JArr xs) = False"
| "is_str (JObj kvs) = False"

text \<open>\<open>session.get(...)\<close> and \<open>session.post(...)\<close>.\<close>

definition send :: "request \<Rightarrow> response io" where
  "send req =
     (\<lambda>w. if \<not> list_all (\<lambda>(k, v). is_str v) (req_headers req)
          then (Inl RequestException, w)
          else (case remote w (sent w) req of
                  None \<Rightarrow> (Inl RequestException, w\<lparr>sent := sent w @ [req]\<rparr>)
                | Some resp \<Rightarrow> (Inr resp, w\<lparr>sent := sent w @ [req]\<rparr>)))"

definition session_get :: "string \<Rightarrow> (string \<times> json) list \<Rightarrow> (string \<times> json) list \<Rightarrow> response io" where
  "session_get url headers params =
     send \<lparr>req_method = ''GET'', req_url = url, req_headers = headers,
           req_params = params, req_json = None\<rparr>"

definition session_post :: "string \<Rightarrow> (string \<times> json) list \<Rightarrow> json \<Rightarrow> response io" where
  "session_post url headers payload =
     send \<lparr>req_method = ''POST'', req_url = url, req_headers = headers,
           req_params = [], req_json = Some payload\<rparr>"

text \<open>\<open>resp.raise_for_status()\<close> raises for the codes 400 to 599.\<close>

definition raise_for_status :: "response \<Rightarrow> error + unit" where
  "raise_for_status resp =
     (if 400 \<le> status_code resp \<and> status_code resp < 600
      then Inl (HTTPError (status_code resp)) else Inr ())"

text \<open>\<open>resp.json()\<close>.\<close>

definition resp_json :: "response \<Rightarrow> error + json" where
  "resp_json resp = (case body resp of None \<Rightarrow> Inl JSONDecodeError | Some j \<Rightarrow> Inr j)"

text \<open>The two calls that follow every request: the status check, then the decoding.\<close>

definition checked_json :: "response \<Rightarrow> error + json" where
  "checked_json resp = ebind (raise_for_status resp) (\<lambda>_. resp_json resp)"

definition BASE_URL :: string where
  "BASE_URL = ''https://www.nemlig.com''"

definition SEARCH_API_URL :: string where
  "SEARCH_API_URL = ''https://webapi.prod.knl.nemlig.it/searchgateway/api''"

definition MAX_ORDER_HISTORY_LOOKUP :: int where
  "MAX_ORDER_HISTORY_LOOKUP = 100"

text \<open>
  \<open>AuthTokens\<close>. The session object is the cookie jar, which lives in the remote
  service's view of the earlier requests; the two tokens are whatever the JSON held.
\<close>

record AuthTokens =
  xsrf_token :: json
  bearer_token :: json

definition get_common_headers :: "(string \<times> json) list io" where
  "get_common_headers =
     io_bind uuid4 (\<lambda>correlation_id.
       io_return
         [(''Accept'', JStr ''application/json, text/plain, */*''),
          (''Content-Type'', JStr ''application/json''),
          (''User-Agent'', JStr ''Mozilla/5.0 (X11; Linux x86_64) AppleWebKit/537.36 (KHTML, like Gecko) Chrome/136.0.0.0 Safari/537.36''),
          (''Device-Size'', JStr ''desktop''),
          (''Platform'', JStr ''web''),
          (''Version'', JStr ''11.201.0''),
          (''X-Correlation-Id'', JStr correlation_id)])"

text \<open>\<open>headers[k] = v\<close>.\<close>

definition set_header :: "string \<Rightarrow> json \<Rightarrow> (string \<times> json) list \<Rightarrow> (string \<times> json) list" where
  "set_header k v headers = AList.update k v headers"

subsection \<open>\<open>login\<close>\<close>

definition login_payload :: "string \<Rightarrow> string \<Rightarrow> json" where
  "login_payload username password =
     JObj [(''Username'', JStr username),
           (''Password'', JStr password),
           (''CheckForExistingProducts'', JBool True),
           (''DoMerge'', JBool True),
           (''AppInstalled'', JBool False),
           (''SaveExistingBasket'', JBool False)]"

text \<open>
  \<open>login\<close> in two parts. \<open>login_post\<close> is the function up to \<open>login_result =
  resp.json()\<close>: the anti-forgery token, the bearer token and the POST of the
  credentials; it hands on the headers and the decoded answer. \<open>login\<close> goes on from
  there: the test for \<open>RedirectUrl\<close>, then the two tokens fetched again.
\<close>

definition login_post :: "(json \<Rightarrow> string) \<Rightarrow> string \<Rightarrow> string \<Rightarrow> ((string \<times> json) list \<times> json) io" where
  "login_post rp username password =
     io_bind get_common_headers (\<lambda>headers.
     io_bind (session_get (BASE_URL @ ''/webapi/AntiForgery'') headers []) (\<lambda>resp.
     io_bind (io_of (checked_json resp)) (\<lambda>xsrf_data.
     io_bind (io_of (py_getitem xsrf_data ''Value'')) (\<lambda>xsrf_token.
     io_bind uuid4 (\<lambda>id2.
     let headers = set_header ''X-Correlation-Id'' (JStr id2) headers in
     io_bind (session_get (BASE_URL @ ''/webapi/Token'') headers []) (\<lambda>resp.
     io_bind (io_of (checked_json resp)) (\<lambda>token_data.
     io_bind (io_of (py_getitem token_data ''access_token'')) (\<lambda>bearer_token.
     io_bind uuid4 (\<lambda>id3.
     let headers = set_header ''X-Correlation-Id'' (JStr id3) headers;
         headers = set_header ''X-XSRF-TOKEN'' xsrf_token headers;
         headers = set_header ''Authorization''
                     (JStr (''Bearer '' @ py_str rp bearer_token)) headers;
         headers = set_header ''Referer'' (JStr (BASE_URL @ ''/login?returnUrl=%2F'')) headers in
     io_bind (session_post (BASE_URL @ ''/webapi/login'') headers
                (login_payload username password)) (\<lambda>resp.
     io_bind (io_of (checked_json resp)) (\<lambda>login_result.
       io_return (headers, login_result))))))))))))"

definition login :: "(json \<Rightarrow> string) \<Rightarrow> string \<Rightarrow> string \<Rightarrow> AuthTokens io" where
  "login rp username password =
     io_bind (login_post rp username password) (\<lambda>(headers, login_result).
     io_bind (io_of (py_contains ''RedirectUrl'' login_result)) (\<lambda>has_redirect.
     if \<not> has_redirect
     then io_raise (PyException (''Login failed: '' @ py_str rp login_result))
     else
     io_bind uuid4 (\<lambda>id4.
     let headers = set_header ''X-Correlation-Id'' (JStr id4) headers in
     io_bind (session_get (BASE_URL @ ''/webapi/Token'') headers []) (\<lambda>resp.
     io_bind (io_of (checked_json resp)) (\<lambda>token_data.
     io_bind (io_of (py_getitem token_data ''access_token'')) (\<lambda>bearer_token.
     io_bind (session_get (BASE_URL @ ''/webapi/AntiForgery'') headers []) (\<lambda>resp.
     io_bind (io_of (checked_json resp)) (\<lambda>xsrf_data.
     io_bind (io_of (py_getitem xsrf_data ''Value'')) (\<lambda>xsrf_token.
       io_return \<lparr>xsrf_token = xsrf_token, bearer_token = bearer_token\<rparr>)))))))))"

section \<open>API client\<close>

text \<open>The headers of an authenticated call: the common ones and the two tokens.\<close>

definition auth_headers :: "(json \<Rightarrow> string) \<Rightarrow> AuthTokens \<Rightarrow> (string \<times> json) list io" where
  "auth_headers rp auth =
     io_bind get_common_headers (\<lambda>headers.
     let headers = set_header ''Authorization'' (JStr (''Bearer '' @ py_str rp (bearer_token auth))) headers;
         headers = set_header ''X-XSRF-TOKEN'' (xsrf_token auth) headers
     in io_return headers)"

definition get_app_settings :: "(json \<Rightarrow> string) \<Rightarrow> AuthTokens \<Rightarrow> json io" where
  "get_app_settings rp auth =
     io_bind (auth_headers rp auth) (\<lambda>headers.
     io_bind (session_get (BASE_URL @ ''/webapi/v2/AppSettings/Website'') headers []) (\<lambda>resp.
       io_of (checked_json resp)))"

text \<open>The dict that \<open>get_page_settings\<close> returns has these four keys.\<close>

record page_settings =
  timestamp :: json
  timeslotUtc :: json
  deliveryZoneId :: json
  userId :: json

definition get_page_settings :: "(json \<Rightarrow> string) \<Rightarrow> AuthTokens \<Rightarrow> page_settings io" where
  "get_page_settings rp auth =
     io_bind (auth_headers rp auth) (\<lambda>headers.
     io_bind (get_app_settings rp auth) (\<lambda>settings.
     io_bind (session_get (BASE_URL @ ''/'') headers
                [(''GetAsJson'', JStr ''1''), (''d'', JStr ''1'')]) (\<lambda>resp.
     io_bind (io_of (checked_json resp)) (\<lambda>data.
     io_bind (io_of (py_get data ''Settings'' (JObj []))) (\<lambda>page.
     io_bind (io_of (py_get page ''TimeslotUtc'' JNull)) (\<lambda>slot.
     io_bind (io_of (if py_truthy slot then py_getitem page ''TimeslotUtc''
                     else Inr (JStr ''2025120216-180-1020''))) (\<lambda>timeslot_utc.
     io_bind (io_of (py_get settings ''CombinedProductsAndSitecoreTimestamp'' (JStr ''''))) (\<lambda>ts.
     io_bind (io_of (py_get page ''DeliveryZoneId'' (JInt 1))) (\<lambda>zone.
     io_bind (io_of (py_get page ''UserId'' (JStr ''''))) (\<lambda>user.
       io_return \<lparr>timestamp = ts, timeslotUtc = timeslot_utc,
                  deliveryZoneId = zone, userId = user\<rparr>))))))))))"

definition search_products :: "(json \<Rightarrow> string) \<Rightarrow> AuthTokens \<Rightarrow> string \<Rightarrow> int \<Rightarrow> json io" where
  "search_products rp auth query limit =
     io_bind (get_page_settings rp auth) (\<lambda>page_settings.
     io_bind uuid4 (\<lambda>correlation_id.
     let headers =
           [(''Accept'', JStr ''application/json, text/plain, */*''),
            (''Authorization'', JStr (''Bearer '' @ py_str rp (bearer_token auth))),
            (''X-Correlation-Id'', JStr correlation_id),
            (''Referer'', JStr (BASE_URL @ ''/'')),
            (''User-Agent'', JStr ''Mozilla/5.0 (X11; Linux x86_64) AppleWebKit/537.36'')];
         params =
           [(''query'', JStr query),
            (''take'', JInt limit),
            (''skip'', JInt 0),
            (''recipeCount'', JInt 0),
            (''timestamp'', timestamp page_settings),
            (''timeslotUtc'', timeslotUtc page_settings),
            (''deliveryZoneId'', deliveryZoneId page_settings)];
         params = (if py_truthy (userId page_settings)
                   then params @ [(''includeFavorites'', userId page_settings)]
                   else params)
     in
     io_bind (session_get (SEARCH_API_URL @ ''/search'') headers params) (\<lambda>resp.
     io_bind (io_of (checked_json resp)) (\<lambda>data.
     io_bind (io_of (py_get data ''Products'' (JObj []))) (\<lambda>products_data.
       io_of (py_get products_data ''Products'' (JArr [])))))))"

definition get_basket :: "(json \<Rightarrow> string) \<Rightarrow> AuthTokens \<Rightarrow> json io" where
  "get_basket rp auth =
     io_bind (auth_headers rp auth) (\<lambda>headers.
     io_bind (session_get (BASE_URL @ ''/webapi/basket/GetBasket'') headers []) (\<lambda>resp.
       io_of (checked_json resp)))"

definition add_to_basket :: "(json \<Rightarrow> string) \<Rightarrow> AuthTokens \<Rightarrow> string \<Rightarrow> int \<Rightarrow> json io" where
  "add_to_basket rp auth product_id quantity =
     io_bind (auth_headers rp auth) (\<lambda>headers.
     let headers = set_header ''Referer'' (JStr (BASE_URL @ ''/'')) headers;
         payload = JObj [(''ProductId'', JStr product_id),
                         (''quantity'', JInt quantity),
                         (''AffectPartialQuantity'', JBool False),
                         (''disableQuantityValidation'', JBool False)]
     in
     io_bind (session_post (BASE_URL @ ''/webapi/basket/AddToBasket'') headers payload) (\<lambda>resp.
       io_of (checked_json resp)))"

definition get_order_history :: "(json \<Rightarrow> string) \<Rightarrow> AuthTokens \<Rightarrow> int \<Rightarrow> int \<Rightarrow> json io" where
  "get_order_history rp auth skip take_n =
     io_bind (auth_headers rp auth) (\<lambda>headers.
     io_bind (session_get (BASE_URL @ ''/webapi/order/GetBasicOrderHistory'') headers
                [(''skip'', JInt skip), (''take'', JInt take_n)]) (\<lambda>resp.
       io_of (checked_json resp)))"

definition get_order_details :: "(json \<Rightarrow> string) \<Rightarrow> AuthTokens \<Rightarrow> int \<Rightarrow> json io" where
  "get_order_details rp auth order_id =
     io_bind (auth_headers rp auth) (\<lambda>headers.
     io_bind (session_get (BASE_URL @ ''/webapi/v2/order/GetOrderHistory/'' @ str_int order_id)
                headers []) (\<lambda>resp.
       io_of (checked_json resp)))"

subsection \<open>\<open>get_product_details\<close>\<close>

text \<open>
  The loop \<open>for p in products: if p.get("Id") == product_id: product_url = p.get("Url");
  break\<close>, with \<open>product_url\<close> starting as \<open>None\<close>.
\<close>

fun find_product_url :: "string \<Rightarrow> json list \<Rightarrow> error + json" where
  "find_product_url product_id [] = Inr JNull"
| "find_product_url product_id (p # ps) =
     ebind (py_get p ''Id'' JNull) (\<lambda>i.
       if py_eq_str i product_id then py_get p ''Url'' JNull
       else find_product_url product_id ps)"

text \<open>
  The loop \<open>for item in content: if item.get("TemplateName") == "productdetailspot":
  return item\<close>; \<open>None\<close> here stands for falling out of the loop.
\<close>

fun find_detail_spot :: "json list \<Rightarrow> error + json option" where
  "find_detail_spot [] = Inr None"
| "find_detail_spot (item # items) =
     ebind (py_get item ''TemplateName'' JNull) (\<lambda>t.
       if py_eq_str t ''productdetailspot'' then Inr (Some item)
       else find_detail_spot items)"

text \<open>
  The fetch of the product page inside \<open>get_product_details\<close>, from \<open>page_settings =
  get_page_settings(auth)\<close> to \<open>data = resp.json()\<close>.
\<close>

definition product_page :: "(json \<Rightarrow> string) \<Rightarrow> AuthTokens \<Rightarrow> json \<Rightarrow> json io" where
  "product_page rp auth product_url =
     io_bind (get_page_settings rp auth) (\<lambda>page_settings.
     io_bind (auth_headers rp auth) (\<lambda>headers.
     let params = [(''GetAsJson'', JStr ''1''),
                   (''t'', timeslotUtc page_settings),
                   (''d'', JStr ''1'')] in
     io_bind (session_get (BASE_URL @ ''/'' @ py_str rp product_url) headers params) (\<lambda>resp.
       io_of (checked_json resp))))"

definition get_product_details :: "(json \<Rightarrow> string) \<Rightarrow> AuthTokens \<Rightarrow> string \<Rightarrow> json io" where
  "get_product_details rp auth product_id =
     io_bind (search_products rp auth product_id 5) (\<lambda>products.
     io_bind (io_of (py_iter products)) (\<lambda>product_list.
     io_bind (io_of (find_product_url product_id product_list)) (\<lambda>product_url.
     if \<not> py_truthy product_url
     then io_bind (io_of (py_len products)) (\<lambda>n.
            io_raise (ProductNotFoundError
              (''Product '' @ product_id @ '' not found. Search returned '' @ str_nat n
               @ '' products but none matched ID.'')))
     else
     io_bind (product_page rp auth product_url) (\<lambda>data.
     io_bind (io_of (py_get data ''content'' (JArr []))) (\<lambda>content.
     io_bind (io_of (py_iter content)) (\<lambda>items.
     io_bind (io_of (find_detail_spot items)) (\<lambda>found.
     case found of
       Some item \<Rightarrow> io_return item
     | None \<Rightarrow>
         io_bind (io_of (emap (\<lambda>item. py_get item ''TemplateName'' (JStr ''unknown'')) items))
           (\<lambda>template_names.
            io_raise (ProductNotFoundError
              (''Product '' @ product_id @ '': No '' @ [CHR 0x27] @ ''productdetailspot''
               @ [CHR 0x27] @ '' in response. Found templates: ''
               @ py_str rp (JArr template_names)))))))))))"

text \<open>A call that ended by raising \<open>ProductNotFoundError\<close>.\<close>

fun is_not_found :: "error \<Rightarrow> bool" where
  "is_not_found (ProductNotFoundError msg) = True"
| "is_not_found (HTTPError s) = False"
| "is_not_found RequestException = False"
| "is_not_found JSONDecodeError = False"
| "is_not_found (KeyError k) = False"
| "is_not_found TypeError = False"
| "is_not_found AttributeError = False"
| "is_not_found ValueError = False"
| "is_not_found OverflowError = False"
| "is_not_found IndexError = False"
| "is_not_found (PyException msg) = False"

definition raises_not_found :: "error + 'a \<Rightarrow> bool" where
  "raises_not_found r = (case r of Inl e \<Rightarrow> is_not_found e | Inr x \<Rightarrow> False)"

text \<open>A search result that is a dict and whose \<open>Id\<close> is not the wanted one.\<close>

definition other_product :: "string \<Rightarrow> json \<Rightarrow> bool" where
  "other_product product_id p =
     (is_dict p \<and> py_get p ''Id'' JNull \<noteq> Inr (JStr product_id))"

text \<open>
  An item of the page content that is a dict and whose \<open>TemplateName\<close> is not
  \<open>productdetailspot\<close>.
\<close>

definition other_template :: "json \<Rightarrow> bool" where
  "other_template item =
     (is_dict item \<and> py_get item ''TemplateName'' JNull \<noteq> Inr (JStr ''productdetailspot''))"

section \<open>Commands\<close>

text \<open>
  Each command returns the exit code. What a command prints is a constant text or the
  text a formatter returns; printing itself changes neither the control flow nor the
  requests and is left out, while every call on the way that can raise is kept.
\<close>

definition cmd_search :: "(json \<Rightarrow> string) \<Rightarrow> AuthTokens \<Rightarrow> string \<Rightarrow> int \<Rightarrow> int io" where
  "cmd_search rp auth query limit =
     io_bind (search_products rp auth query limit) (\<lambda>products.
     if \<not> py_truthy products then io_return 1
     else
     io_bind (io_of (py_len products)) (\<lambda>n.
     io_bind (io_of (py_iter products)) (\<lambda>product_list.
     io_bind (io_of (emap (format_product rp) product_list)) (\<lambda>texts.
       io_return 0))))"

text \<open>
  The loop of \<open>cmd_basket\<close>: each line is formatted, then its price added to the running
  \<open>total\<close>.
\<close>

fun basket_loop :: "(json \<Rightarrow> string) \<Rightarrow> json \<Rightarrow> json list \<Rightarrow> error + json" where
  "basket_loop rp running [] = Inr running"
| "basket_loop rp running (line # lines) =
     ebind (format_basket_line rp line) (\<lambda>text.
     ebind (py_get line ''Price'' (JInt 0)) (\<lambda>price.
     ebind (py_add running price) (\<lambda>running'. basket_loop rp running' lines)))"

definition cmd_basket :: "(json \<Rightarrow> string) \<Rightarrow> AuthTokens \<Rightarrow> int io" where
  "cmd_basket rp auth =
     io_bind (get_basket rp auth) (\<lambda>basket.
     io_bind (io_of (py_get basket ''Lines'' (JArr []))) (\<lambda>lines.
     if \<not> py_truthy lines then io_return 0
     else
     io_bind (io_of (py_len lines)) (\<lambda>n.
     io_bind (io_of (py_iter lines)) (\<lambda>line_list.
     io_bind (io_of (basket_loop rp (JInt 0) line_list)) (\<lambda>total.
     io_bind (io_of (py_format_f 2 total)) (\<lambda>total_text.
       io_return 0))))))"

text \<open>
  The loop \<open>for line in lines: if line.get("Id") == product_id: added_line = line; break\<close>,
  with \<open>added_line\<close> starting as \<open>None\<close>.
\<close>

fun find_added_line :: "string \<Rightarrow> json list \<Rightarrow> error + json" where
  "find_added_line product_id [] = Inr JNull"
| "find_added_line product_id (line # lines) =
     ebind (py_get line ''Id'' JNull) (\<lambda>i.
       if py_eq_str i product_id then Inr line
       else find_added_line product_id lines)"

definition cmd_add :: "(json \<Rightarrow> string) \<Rightarrow> AuthTokens \<Rightarrow> string \<Rightarrow> int \<Rightarrow> int io" where
  "cmd_add rp auth product_id quantity =
     io_bind (add_to_basket rp auth product_id quantity) (\<lambda>result.
     io_bind (io_of (py_get result ''Lines'' (JArr []))) (\<lambda>lines.
     io_bind (io_of (py_iter lines)) (\<lambda>line_list.
     io_bind (io_of (find_added_line product_id line_list)) (\<lambda>added_line.
     io_bind (io_of (if py_truthy added_line then format_basket_line rp added_line
                     else Inr (''Product '' @ product_id @ '' added to basket.''))) (\<lambda>text.
     io_bind (io_of (sum_field ''Price'' (JInt 0) line_list)) (\<lambda>total.
     io_bind (io_of (py_format_f 2 total)) (\<lambda>total_text.
     io_bind (io_of (py_len lines)) (\<lambda>n.
       io_return 0))))))))"

subsection \<open>\<open>format_product_details\<close> and \<open>cmd_details\<close>\<close>

text \<open>\<open>", ".join(labels)\<close>: every element must be a str.\<close>

fun join_comma :: "json list \<Rightarrow> error + string" where
  "join_comma [] = Inr []"
| "join_comma [JStr s] = Inr s"
| "join_comma (JStr s # y # ys) = ebind (join_comma (y # ys)) (\<lambda>rest. Inr (s @ '', '' @ rest))"
| "join_comma (JNull # ys) = Inl TypeError"
| "join_comma (JBool b # ys) = Inl TypeError"
| "join_comma (JInt i # ys) = Inl TypeError"
| "join_comma (JFloat f # ys) = Inl TypeError"
| "join_comma (JArr xs # ys) = Inl TypeError"
| "join_comma (JObj kvs # ys) = Inl TypeError"

text \<open>\<open>strip_html_tags(text)\<close> on a decoded value: \<open>re.sub\<close> wants a str.\<close>

fun strip_html_tags_of :: "json \<Rightarrow> error + string" where
  "strip_html_tags_of (JStr s) = Inr (strip_html_tags s)"
| "strip_html_tags_of JNull = Inl TypeError"
| "strip_html_tags_of (JBool b) = Inl TypeError"
| "strip_html_tags_of (JInt i) = Inl TypeError"
| "strip_html_tags_of (JFloat f) = Inl TypeError"
| "strip_html_tags_of (JArr xs) = Inl TypeError"
| "strip_html_tags_of (JObj kvs) = Inl TypeError"

definition format_attribute :: "(json \<Rightarrow> string) \<Rightarrow> json \<Rightarrow> error + string" where
  "format_attribute rp attr =
     ebind (py_get attr ''Name'' (JStr '''')) (\<lambda>attr_name.
     ebind (py_get attr ''Value'' (JStr '''')) (\<lambda>attr_value.
       Inr (''  '' @ py_str rp attr_name @ '': '' @ py_str rp attr_value)))"

definition format_product_details :: "(json \<Rightarrow> string) \<Rightarrow> json \<Rightarrow> error + string" where
  "format_product_details rp product =
     ebind (py_get product ''Name'' (JStr ''Unknown'')) (\<lambda>name.
     ebind (py_get product ''Brand'' (JStr '''')) (\<lambda>brand.
     ebind (py_get product ''Id'' (JStr '''')) (\<lambda>product_id.
     ebind (py_get product ''Price'' (JInt 0)) (\<lambda>price.
     ebind (py_get product ''UnitPriceCalc'' (JInt 0)) (\<lambda>unit_price.
     ebind (py_get product ''UnitPriceLabel'' (JStr '''')) (\<lambda>unit_label.
     ebind (py_get product ''Description'' (JStr '''')) (\<lambda>description.
     ebind (py_get product ''Category'' (JStr '''')) (\<lambda>category.
     ebind (py_get product ''SubCategory'' (JStr '''')) (\<lambda>subcategory.
     ebind (py_len name) (\<lambda>name_len.
     ebind (py_format_f 2 price) (\<lambda>price_text.
     ebind (py_format_f 2 unit_price) (\<lambda>unit_price_text.
     let lines = [py_str rp name,
                  replicate name_len CHR ''='',
                  '''',
                  ''ID:          '' @ py_str rp product_id,
                  ''Brand:       '' @ py_str rp brand,
                  ''Category:    '' @ py_str rp category @ '' > '' @ py_str rp subcategory,
                  ''Description: '' @ py_str rp description,
                  '''',
                  ''Price:       '' @ price_text @ '' kr ('' @ unit_price_text @ '' ''
                    @ py_str rp unit_label @ '')''] in
     ebind (py_get product ''Campaign'' JNull) (\<lambda>campaign.
     ebind (if py_truthy campaign
            then ebind (py_get campaign ''Type'' (JStr '''')) (\<lambda>campaign_type.
                 ebind (py_get campaign ''MinQuantity'' (JInt 0)) (\<lambda>min_qty.
                 ebind (py_get campaign ''TotalPrice'' (JInt 0)) (\<lambda>campaign_price.
                 ebind (py_format_f 2 campaign_price) (\<lambda>campaign_price_text.
                   Inr (lines @ [''Campaign:    '' @ py_str rp min_qty @ '' for ''
                                 @ campaign_price_text @ '' kr ('' @ py_str rp campaign_type
                                 @ '')''])))))
            else Inr lines) (\<lambda>lines.
     ebind (py_get product ''Availability'' (JObj [])) (\<lambda>availability.
     ebind (py_get availability ''IsAvailableInStock'' (JBool False)) (\<lambda>in_stock.
     ebind (py_get availability ''IsDeliveryAvailable'' (JBool False)) (\<lambda>delivery_ok.
     let stock_status = (if py_truthy in_stock then ''In stock'' else ''OUT OF STOCK'');
         delivery_status = (if py_truthy delivery_ok then ''Available'' else ''Not available'');
         lines = lines @ ['''', ''Stock:       '' @ stock_status,
                          ''Delivery:    '' @ delivery_status] in
     ebind (py_get product ''Attributes'' (JArr [])) (\<lambda>attributes.
     ebind (if py_truthy attributes
            then ebind (py_iter attributes) (\<lambda>attrs.
                 ebind (emap (format_attribute rp) attrs) (\<lambda>attr_lines.
                   Inr (lines @ ['''', ''Attributes:''] @ attr_lines)))
            else Inr lines) (\<lambda>lines.
     ebind (py_get product ''Labels'' (JArr [])) (\<lambda>labels.
     ebind (if py_truthy labels
            then ebind (py_iter labels) (\<lambda>label_list.
                 ebind (join_comma label_list) (\<lambda>joined.
                   Inr (lines @ ['''', ''Labels:      '' @ joined])))
            else Inr lines) (\<lambda>lines.
     ebind (py_get product ''Text'' (JStr '''')) (\<lambda>text.
     ebind (if py_truthy text
            then ebind (strip_html_tags_of text) (\<lambda>clean_text.
                   Inr (if clean_text \<noteq> []
                        then lines @ ['''', ''About:''] @ wrap_text_default clean_text
                        else lines))
            else Inr lines) (\<lambda>lines.
     ebind (py_get product ''Url'' (JStr '''')) (\<lambda>url.
     let lines = (if py_truthy url
                  then lines @ ['''', ''URL:         '' @ BASE_URL @ ''/'' @ py_str rp url]
                  else lines) in
       Inr (join_lines lines)))))))))))))))))))))))))"

definition cmd_details :: "(json \<Rightarrow> string) \<Rightarrow> AuthTokens \<Rightarrow> string \<Rightarrow> int io" where
  "cmd_details rp auth product_id =
     (\<lambda>w. case get_product_details rp auth product_id w of
            (Inl (ProductNotFoundError msg), w') \<Rightarrow> (Inr 1, w')
          | (Inl e, w') \<Rightarrow> (Inl e, w')
          | (Inr product, w') \<Rightarrow>
              io_bind (io_of (format_product_details rp product)) (\<lambda>text. io_return 0) w')"

subsection \<open>\<open>cmd_history\<close>\<close>

text \<open>
  The loop \<open>for o in orders: if o.get("Id") == order_id: order = o; break\<close>, with
  \<open>order\<close> starting as \<open>None\<close>.
\<close>

fun find_order :: "int \<Rightarrow> json list \<Rightarrow> error + json" where
  "find_order order_id [] = Inr JNull"
| "find_order order_id (ord # ords) =
     ebind (py_get ord ''Id'' JNull) (\<lambda>i.
       if py_eq_int i order_id then Inr ord else find_order order_id ords)"

text \<open>\<open>if order_id\<close>: the argument was given and is not 0.\<close>

fun order_id_given :: "int option \<Rightarrow> bool" where
  "order_id_given None = False"
| "order_id_given (Some n) = (n \<noteq> 0)"

definition cmd_history :: "(json \<Rightarrow> string) \<Rightarrow> AuthTokens \<Rightarrow> int option \<Rightarrow> int \<Rightarrow> int io" where
  "cmd_history rp auth order_id limit =
     (if order_id_given order_id
      then
        io_bind (get_order_history rp auth 0 MAX_ORDER_HISTORY_LOOKUP) (\<lambda>history.
        io_bind (io_of (py_get history ''Orders'' (JArr []))) (\<lambda>orders.
        io_bind (io_of (py_iter orders)) (\<lambda>order_list.
        io_bind (io_of (find_order (the order_id) order_list)) (\<lambda>order.
        if \<not> py_truthy order then io_return 1
        else
        io_bind (get_order_details rp auth (the order_id)) (\<lambda>details.
        io_bind (io_of (py_get details ''Lines'' (JArr []))) (\<lambda>lines.
        io_bind (io_of (format_order_details rp order lines)) (\<lambda>text.
          io_return 0)))))))
      else
        io_bind (get_order_history rp auth 0 limit) (\<lambda>history.
        io_bind (io_of (py_get history ''Orders'' (JArr []))) (\<lambda>orders.
        io_bind (io_of (py_get history ''NumberOfPages'' (JInt 1))) (\<lambda>num_pages.
        if \<not> py_truthy orders then io_return 0
        else
        io_bind (io_of (py_len orders)) (\<lambda>n.
        io_bind (io_of (py_iter orders)) (\<lambda>order_list.
        io_bind (io_of (emap (format_order_summary rp) order_list)) (\<lambda>texts.
          io_return 0)))))))"

subsection \<open>\<open>main\<close>\<close>

text \<open>The arguments as \<open>argparse\<close> hands them over, one constructor for each subcommand.\<close>

datatype command =
    Search string int
  | Details string
  | Basket
  | Add string int
  | History "int option" int

record args =
  username :: string
  password :: string
  command :: command

fun run_command :: "(json \<Rightarrow> string) \<Rightarrow> AuthTokens \<Rightarrow> command \<Rightarrow> int io" where
  "run_command rp auth (Search query limit) = cmd_search rp auth query limit"
| "run_command rp auth (Details product_id) = cmd_details rp auth product_id"
| "run_command rp auth Basket = cmd_basket rp auth"
| "run_command rp auth (Add product_id quantity) = cmd_add rp auth product_id quantity"
| "run_command rp auth (History order_id limit) = cmd_history rp auth order_id limit"

text \<open>
  \<open>args = parser.parse_args()\<close> stands before the \<open>try\<close> block. \<open>argparse\<close> either
  returns the namespace, or ends the process itself through \<open>sys.exit\<close>: with status 2
  after a usage error (a missing \<open>--username\<close> or \<open>--password\<close>, an unknown subcommand,
  a \<open>--limit\<close> that is not an int), with status 0 after \<open>--help\<close>. The parser belongs to
  the library; what it made of the command line is the argument of \<open>main\<close>.
\<close>

datatype parse_result =
    Parsed args
  | Usage_error
  | Help_shown

text \<open>
  \<open>main\<close>: the outcome of the parsing, then the \<open>try\<close> block and the two handlers, one
  for \<open>HTTPError\<close> and one for every other \<open>Exception\<close>; both return 1. The result is
  the exit code of the process, as \<open>sys.exit(main())\<close> passes it on.
\<close>

fun main :: "(json \<Rightarrow> string) \<Rightarrow> parse_result \<Rightarrow> world \<Rightarrow> int \<times> world" where
  "main rp Usage_error w = (2, w)"
| "main rp Help_shown w = (0, w)"
| "main rp (Parsed a) w =
     (case io_bind (login rp (username a) (password a))
             (\<lambda>auth. run_command rp auth (command a)) w of
        (Inr code, w') \<Rightarrow> (code, w')
      | (Inl (HTTPError status), w') \<Rightarrow> (1, w')
      | (Inl e, w') \<Rightarrow> (1, w'))"


section \<open>Worlds for the worked examples\<close>

text \<open>
  A remote service that answers every request with status 200 and a JSON document
  chosen by the URL, and a random source whose identifiers are all different.
\<close>

definition answers :: "(string \<Rightarrow> json) \<Rightarrow> request list \<Rightarrow> request \<Rightarrow> response option" where
  "answers docs history req = Some \<lparr>status_code = 200, body = Some (docs (req_url req))\<rparr>"

definition numbered_uuid :: "nat \<Rightarrow> string" where
  "numbered_uuid n = ''uuid-'' @ str_nat n"

definition world_of :: "(string \<Rightarrow> json) \<Rightarrow> world" where
  "world_of docs =
     \<lparr>remote = answers docs, sent = [], uuid_source = numbered_uuid, uuid_drawn = 0\<rparr>"

text \<open>The header a request carries under a name.\<close>

definition header_of :: "string \<Rightarrow> request \<Rightarrow> json option" where
  "header_of name req = map_of (req_headers req) name"

text \<open>
  A site that answers every URL with one document, on which the login goes through: it
  has the anti-forgery value, the access token and the redirect field; its basket and
  its order list are empty; its one search result has the identifier 701025 and no URL.
\<close>

definition shop_doc :: json where
  "shop_doc =
     JObj [(''Value'', JStr ''xsrf''),
           (''access_token'', JStr ''token''),
           (''RedirectUrl'', JStr ''/''),
           (''Products'', JObj [(''Products'', JArr [JObj [(''Id'', JStr ''701025'')]])]),
           (''content'', JArr [JObj [(''TemplateName'', JStr ''productdetailspot'')]]),
           (''Lines'', JArr []),
           (''Orders'', JArr [])]"

definition shop_site :: "string \<Rightarrow> json" where
  "shop_site url = shop_doc"

text \<open>
  A site that hands out the two tokens and answers the login POST with the document
  \<open>{"Error": "bad credentials"}\<close>.
\<close>

definition bad_credentials_site :: "string \<Rightarrow> json" where
  "bad_credentials_site url =
     (if url = BASE_URL @ ''/webapi/login''
      then JObj [(''Error'', JStr ''bad credentials'')]
      else JObj [(''Value'', JStr ''xsrf''), (''access_token'', JStr ''token'')])"

definition demo_auth :: AuthTokens where
  "demo_auth = \<lparr>xsrf_token = JStr ''xsrf'', bearer_token = JStr ''token''\<rparr>"

text \<open>The class of the exception a call ended with, if it raised.\<close>

fun raised_class :: "error + 'a \<Rightarrow> string option" where
  "raised_class (Inl e) = Some (class_name e)"
| "raised_class (Inr x) = None"









section \<open>Basic facts about the Python layer\<close>

lemma ebind_Inr [simp]: "ebind (Inr x) f = f x"
  by (simp add: ebind_def)

lemma ebind_Inl [simp]: "ebind (Inl e) f = Inl e"
  by (simp add: ebind_def)


lemma py_get_obj: "py_get (JObj kvs) k d = Inr (field kvs k d)"
  by (simp add: field_def)

lemma py_get_not_dict: "\<not> is_dict v \<Longrightarrow> py_get v k d = Inl AttributeError"
  by (cases v) simp_all

lemma bitlen_le: "n < 2 ^ b \<Longrightarrow> bitlen n \<le> b"
proof (induction b arbitrary: n)
  case 0
  then show ?case by (simp add: bitlen.simps)
next
  case (Suc b)
  show ?case
  proof (cases "n = 0")
    case True
    then show ?thesis by (simp add: bitlen.simps)
  next
    case False
    have "n div 2 < 2 ^ b" using Suc.prems by auto
    then have "bitlen (n div 2) \<le> b" by (rule Suc.IH)
    then show ?thesis using False by (subst bitlen.simps) simp
  qed
qed

lemma rshift_rne_0: "rshift_rne m 0 = m"
  by (simp add: rshift_rne_def)

text \<open>An int below \<open>2 ^ 53\<close> in size is a float as it stands.\<close>

lemma float_of_int_small:
  assumes "\<bar>i\<bar> < 2 ^ 53"
  shows "float_of_int i = Inr (Finite (i < 0) (nat \<bar>i\<bar>) 0)"
proof -
  have "nat \<bar>i\<bar> < 2 ^ 53" using assms by (simp add: nat_less_iff)
  then have "bitlen (nat \<bar>i\<bar>) \<le> 53" by (rule bitlen_le)
  then show ?thesis
    by (simp add: float_of_int_def round53_def rshift_rne_0 Let_def)
qed

lemma formats_f_float: "formats_f (JFloat f)"
  by (simp add: formats_f_def)

lemma formats_f_bool: "formats_f (JBool b)"
  by (simp add: formats_f_def)

lemma formats_f_int: "\<bar>i\<bar> < 2 ^ 53 \<Longrightarrow> formats_f (JInt i)"
  by (simp add: formats_f_def float_of_int_small)

lemma format_zero: "py_format_f 2 (JInt 0) = Inr ''0.00''"
  by (simp add: float_of_int_small fixed_digits_def str_nat.simps digit_char_def)


section \<open>Properties of the text helpers\<close>

subsection \<open>Splitting into words\<close>

lemma split_from_space_prefix:
  "\<forall>c\<in>set ws. is_space c \<Longrightarrow> split_from [] (ws @ s) = split_from [] s"
  by (induction ws) auto

lemma split_from_all_space: "\<forall>c\<in>set ws. is_space c \<Longrightarrow> split_from [] ws = []"
  by (induction ws) auto

lemma split_from_word:
  "\<forall>c\<in>set w. \<not> is_space c \<Longrightarrow> cur @ w \<noteq> [] \<Longrightarrow> split_from cur w = [cur @ w]"
  by (induction w arbitrary: cur) auto

lemma split_from_append_space:
  "is_space sp \<Longrightarrow> split_from cur (a @ sp # b) = split_from cur a @ split_from [] b"
  by (induction a arbitrary: cur) auto

lemma split_from_words:
  "\<forall>c\<in>set cur. \<not> is_space c \<Longrightarrow> w \<in> set (split_from cur s)
   \<Longrightarrow> w \<noteq> [] \<and> (\<forall>c\<in>set w. \<not> is_space c)"
proof (induction s arbitrary: cur)
  case Nil
  then show ?case by (auto split: if_splits)
next
  case (Cons a s)
  show ?case
  proof (cases "is_space a")
    case True
    then have "w = cur \<and> cur \<noteq> [] \<or> w \<in> set (split_from [] s)"
      using Cons.prems(2) by (auto split: if_splits)
    then show ?thesis
    proof
      assume "w = cur \<and> cur \<noteq> []"
      then show ?thesis using Cons.prems(1) by simp
    next
      assume "w \<in> set (split_from [] s)"
      then show ?thesis using Cons.IH [of "[]"] by simp
    qed
  next
    case False
    then have "w \<in> set (split_from (cur @ [a]) s)" using Cons.prems(2) by simp
    moreover have "\<forall>c\<in>set (cur @ [a]). \<not> is_space c" using Cons.prems(1) False by simp
    ultimately show ?thesis using Cons.IH [of "cur @ [a]"] by blast
  qed
qed

lemma py_split_proper: "w \<in> set (py_split s) \<Longrightarrow> proper_word w"
  unfolding py_split_def proper_word_def using split_from_words [of "[]" w s] by simp

lemma py_split_indent_word:
  "\<forall>c\<in>set indent. is_space c \<Longrightarrow> proper_word w \<Longrightarrow> py_split (indent @ w) = [w]"
  unfolding py_split_def proper_word_def
  by (simp add: split_from_space_prefix split_from_word)

lemma py_split_blank_word:
  "proper_word w \<Longrightarrow> py_split (line @ '' '' @ w) = py_split line @ [w]"
  unfolding py_split_def proper_word_def
  by (simp add: split_from_append_space split_from_word is_space_def)

lemma py_split_all_space: "\<forall>c\<in>set ws. is_space c \<Longrightarrow> py_split ws = []"
  unfolding py_split_def by (rule split_from_all_space)

lemma all_dropWhile_iff: "(\<forall>x\<in>set (dropWhile P s). P x) \<longleftrightarrow> (\<forall>x\<in>set s. P x)"
  by (induction s) auto

lemma strip_empty_iff: "strip s = [] \<longleftrightarrow> (\<forall>c\<in>set s. is_space c)"
  unfolding strip_def rstrip_def lstrip_def
  by (simp add: all_dropWhile_iff)

subsection \<open>Word wrapping\<close>

text \<open>
  The loop invariant of \<open>wrap_text\<close>: the words of the finished lines, then those of the
  line being filled, then the words still to place, are the words the loop started with.
\<close>

lemma wrap_loop_words:
  assumes "\<forall>c\<in>set indent. is_space c" and "\<forall>w\<in>set words. proper_word w"
    and "wrap_loop width indent lines cur words = (lines', cur')"
  shows "concat (map py_split lines') @ py_split cur'
         = concat (map py_split lines) @ py_split cur @ words"
  using assms(2,3)
proof (induction words arbitrary: lines cur)
  case Nil
  then show ?case by simp
next
  case (Cons w ws)
  have pw: "proper_word w" and pws: "\<forall>w\<in>set ws. proper_word w" using Cons.prems(1) by simp_all
  show ?case
  proof (cases "int (length cur) + int (length w) + 1 > width")
    case True
    then have "wrap_loop width indent (lines @ [cur]) (indent @ w) ws = (lines', cur')"
      using Cons.prems(2) by simp
    from Cons.IH [OF pws this] show ?thesis
      using py_split_indent_word [OF assms(1) pw] by simp
  next
    case False
    show ?thesis
    proof (cases "cur = indent")
      case True
      then have "wrap_loop width indent lines (cur @ w) ws = (lines', cur')"
        using Cons.prems(2) False by simp
      from Cons.IH [OF pws this] show ?thesis
        using py_split_indent_word [OF assms(1) pw] py_split_all_space [OF assms(1)] True
        by simp
    next
      case ne: False
      then have "wrap_loop width indent lines (cur @ '' '' @ w) ws = (lines', cur')"
        using Cons.prems(2) False by simp
      from Cons.IH [OF pws this] show ?thesis
        using py_split_blank_word [OF pw, of cur] by simp
    qed
  qed
qed

lemma wrap_text_words_indent:
  assumes "\<forall>c\<in>set indent. is_space c"
  shows "concat (map py_split (wrap_text text width indent)) = py_split text"
proof -
  obtain lines cur where wl: "wrap_loop width indent [] indent (py_split text) = (lines, cur)"
    by (cases "wrap_loop width indent [] indent (py_split text)")
  have "\<forall>w\<in>set (py_split text). proper_word w" using py_split_proper by blast
  from wrap_loop_words [OF assms this wl]
  have eq: "concat (map py_split lines) @ py_split cur = py_split text"
    using py_split_all_space [OF assms] by simp
  show ?thesis
  proof (cases "strip cur = []")
    case True
    then have "py_split cur = []" using strip_empty_iff py_split_all_space by blast
    then show ?thesis using eq wl True by (simp add: wrap_text_def)
  next
    case False
    then show ?thesis using eq wl by (simp add: wrap_text_def)
  qed
qed

text \<open>
  Claim C9. \<open>wrap_text\<close> keeps the words: for every text and every width, the words of
  the returned lines, read line after line, are exactly the words of the text, in the
  same order; none is dropped, repeated, cut or moved. The indentation is the default
  one, two blanks.
\<close>

theorem wrap_text_preserves_words:
  "concat (map py_split (wrap_text text width ''  '')) = py_split text"
  by (rule wrap_text_words_indent) (simp add: is_space_def)

subsection \<open>Removing tags\<close>

lemma sub_tags_no_lt: "CHR ''<'' \<notin> set s \<Longrightarrow> sub_tags s = s"
  by (induction s) auto

lemma sub_tags_keep_prefix: "CHR ''<'' \<notin> set pre \<Longrightarrow> sub_tags (pre @ s) = pre @ sub_tags s"
  by (induction pre) auto

lemma sub_tags_one_tag:
  assumes "inner \<noteq> []" and "CHR ''>'' \<notin> set inner"
  shows "sub_tags (''<'' @ inner @ ''>'' @ post) = sub_tags post"
proof -
  have tw: "takeWhile (\<lambda>x. x \<noteq> CHR ''>'') (inner @ CHR ''>'' # post) = inner"
    using assms(2) by (induction inner) auto
  have dw: "dropWhile (\<lambda>x. x \<noteq> CHR ''>'') (inner @ CHR ''>'' # post) = CHR ''>'' # post"
    using assms(2) by (induction inner) auto
  show ?thesis using tw dw assms(1) by simp
qed

text \<open>
  Claim C8. \<open>strip_html_tags\<close> removes markup by plain tag removal and decodes no
  entity: \<open>strip_html_tags("<b>Hello</b> world")\<close> is \<open>"Hello world"\<close>; a tag, that is a
  \<open><\<close>, a non-empty run without \<open>>\<close> and the closing \<open>>\<close>, disappears and the text before it
  stays as it is; a text without \<open><\<close> is only stripped of the white space at its ends, so
  an entity such as \<open>&amp;\<close> is left as written.
\<close>

theorem strip_html_tags_removes_tags:
  "strip_html_tags ''<b>Hello</b> world'' = ''Hello world''
   \<and> (CHR ''<'' \<notin> set pre \<and> inner \<noteq> [] \<and> CHR ''>'' \<notin> set inner \<longrightarrow>
        strip_html_tags (pre @ ''<'' @ inner @ ''>'' @ post) = strip (pre @ sub_tags post))
   \<and> (CHR ''<'' \<notin> set s \<longrightarrow> strip_html_tags s = strip s)"
proof (intro conjI impI)
  show "strip_html_tags ''<b>Hello</b> world'' = ''Hello world''"
    by (simp add: strip_html_tags_def strip_def lstrip_def rstrip_def is_space_def)
next
  assume a: "CHR ''<'' \<notin> set pre \<and> inner \<noteq> [] \<and> CHR ''>'' \<notin> set inner"
  then have "sub_tags (pre @ ''<'' @ inner @ ''>'' @ post) = pre @ sub_tags post"
    using sub_tags_keep_prefix [of pre "''<'' @ inner @ ''>'' @ post"]
      sub_tags_one_tag [of inner post]
    by simp
  then show "strip_html_tags (pre @ ''<'' @ inner @ ''>'' @ post) = strip (pre @ sub_tags post)"
    by (simp add: strip_html_tags_def)
next
  assume "CHR ''<'' \<notin> set s"
  then show "strip_html_tags s = strip s" by (simp add: strip_html_tags_def sub_tags_no_lt)
qed

theorem strip_html_tags_removes_tags_witness:
  "strip_html_tags ''Fish <i>&amp;</i> chips'' = ''Fish &amp; chips''
   \<and> strip_html_tags '' 5 &gt; 3 '' = ''5 &gt; 3''"
proof -
  have 1: "strip_html_tags (''Fish '' @ ''<'' @ ''i'' @ ''>'' @ ''&amp;</i> chips'')
           = strip (''Fish '' @ sub_tags ''&amp;</i> chips'')"
    using strip_html_tags_removes_tags [of "''Fish ''" "''i''" "''&amp;</i> chips''" "[]"]
    by simp
  have 2: "strip_html_tags '' 5 &gt; 3 '' = strip '' 5 &gt; 3 ''"
    using strip_html_tags_removes_tags [of "[]" "[]" "[]" "'' 5 &gt; 3 ''"] by simp
  show ?thesis using 1 2 by (simp add: strip_def lstrip_def rstrip_def is_space_def)
qed

section \<open>Properties of the presenter\<close>

subsection \<open>\<open>format_product\<close>\<close>

lemma format_product_returns_iff:
  "(\<exists>t. format_product rp (JObj kvs) = Inr t)
   \<longleftrightarrow> formats_f (field kvs ''Price'' (JInt 0))
       \<and> is_dict (field kvs ''Availability'' (JObj []))"
proof (cases "is_dict (field kvs ''Availability'' (JObj []))")
  case False
  then show ?thesis
    by (simp add: format_product_def py_get_obj py_get_not_dict del: py_get.simps)
next
  case True
  then obtain a where a: "field kvs ''Availability'' (JObj []) = JObj a"
    by (cases "field kvs ''Availability'' (JObj [])") simp_all
  show ?thesis
    by (cases "py_format_f 2 (field kvs ''Price'' (JInt 0))")
       (simp_all add: format_product_def py_get_obj a formats_f_def Let_def del: py_get.simps)
qed

lemma format_product_missing_name:
  "map_of kvs ''Name'' = None \<Longrightarrow>
   format_product rp (JObj kvs) = format_product rp (JObj ((''Name'', JStr ''Unknown'') # kvs))"
  by (simp add: format_product_def py_get_obj field_def del: py_get.simps)

lemma format_product_missing_brand:
  "map_of kvs ''Brand'' = None \<Longrightarrow>
   format_product rp (JObj kvs) = format_product rp (JObj ((''Brand'', JStr '''') # kvs))"
  by (simp add: format_product_def py_get_obj field_def del: py_get.simps)

lemma format_product_missing_price:
  "map_of kvs ''Price'' = None \<Longrightarrow>
   format_product rp (JObj kvs) = format_product rp (JObj ((''Price'', JInt 0) # kvs))"
  by (simp add: format_product_def py_get_obj field_def del: py_get.simps)

lemma format_product_missing_availability:
  "map_of kvs ''Availability'' = None \<Longrightarrow>
   format_product rp (JObj kvs)
   = format_product rp
       (JObj ((''Availability'', JObj [(''IsAvailableInStock'', JBool False)]) # kvs))"
  by (simp add: format_product_def py_get_obj field_def del: py_get.simps)

lemma format_product_empty:
  "format_product rp (JObj []) = Inr ''  [] Unknown () - 0.00 kr -  [OUT OF STOCK]''"
  by (simp add: format_product_def format_zero del: py_format_f.simps)

text \<open>
  Claim C7, as the program has it. \<open>format_product\<close> returns a text exactly for the
  product dicts whose \<open>Price\<close>, when present, is a value that \<open>{price:.2f}\<close> accepts (a
  float, a bool, an int within the range of a float) and whose \<open>Availability\<close>, when
  present, is a dict; every other field may be missing or hold anything. A missing name
  is shown as \<open>Unknown\<close>, a missing brand as the empty text, a missing price as \<open>0.00\<close>
  and a missing availability as out of stock: the product without the field is rendered
  as the product with the default in its place.
\<close>

theorem format_product_defaults:
  "((\<exists>t. format_product rp (JObj kvs) = Inr t)
      \<longleftrightarrow> formats_f (field kvs ''Price'' (JInt 0))
          \<and> is_dict (field kvs ''Availability'' (JObj [])))
   \<and> (map_of kvs ''Name'' = None \<longrightarrow>
        format_product rp (JObj kvs)
        = format_product rp (JObj ((''Name'', JStr ''Unknown'') # kvs)))
   \<and> (map_of kvs ''Brand'' = None \<longrightarrow>
        format_product rp (JObj kvs)
        = format_product rp (JObj ((''Brand'', JStr '''') # kvs)))
   \<and> (map_of kvs ''Price'' = None \<longrightarrow>
        format_product rp (JObj kvs)
        = format_product rp (JObj ((''Price'', JInt 0) # kvs)))
   \<and> (map_of kvs ''Availability'' = None \<longrightarrow>
        format_product rp (JObj kvs)
        = format_product rp
            (JObj ((''Availability'', JObj [(''IsAvailableInStock'', JBool False)]) # kvs)))
   \<and> format_product rp (JObj []) = Inr ''  [] Unknown () - 0.00 kr -  [OUT OF STOCK]''"
  using format_product_returns_iff [of rp kvs] format_product_missing_name [of kvs rp]
    format_product_missing_brand [of kvs rp] format_product_missing_price [of kvs rp]
    format_product_missing_availability [of kvs rp] format_product_empty [of rp]
  by blast

theorem format_product_defaults_witness:
  "(\<exists>t. format_product plain_repr (JObj []) = Inr t)
   \<and> format_product plain_repr (JObj [])
     = format_product plain_repr (JObj [(''Name'', JStr ''Unknown'')])
   \<and> format_product plain_repr (JObj [])
     = format_product plain_repr (JObj [(''Brand'', JStr '''')])
   \<and> format_product plain_repr (JObj [])
     = format_product plain_repr (JObj [(''Price'', JInt 0)])
   \<and> format_product plain_repr (JObj [])
     = format_product plain_repr
         (JObj [(''Availability'', JObj [(''IsAvailableInStock'', JBool False)])])"
proof -
  have p: "formats_f (field [] ''Price'' (JInt 0))"
    by (simp add: field_def formats_f_int)
  have d: "is_dict (field [] ''Availability'' (JObj []))"
    by (simp add: field_def)
  have m: "map_of ([] :: (string \<times> json) list) k = None" for k
    by simp
  from format_product_defaults [of plain_repr "[]"] p d m show ?thesis
    by auto
qed

text \<open>
  Claim C7 as stated fails twice on the program: the product with no field at all is
  rendered with an empty brand, \<open>()\<close>, not with \<open>(Unknown)\<close>; and a product dict whose
  price is \<open>null\<close> makes \<open>format_product\<close> raise \<open>TypeError\<close>.
\<close>

theorem format_product_brand_counterexample:
  "format_product plain_repr (JObj []) = Inr ''  [] Unknown () - 0.00 kr -  [OUT OF STOCK]''
   \<and> format_product plain_repr (JObj [])
       \<noteq> Inr ''  [] Unknown (Unknown) - 0.00 kr -  [OUT OF STOCK]''
   \<and> format_product plain_repr (JObj [(''Price'', JNull)]) = Inl TypeError"
proof (intro conjI)
  show "format_product plain_repr (JObj [(''Price'', JNull)]) = Inl TypeError"
    by (simp add: format_product_def)
qed (simp_all add: format_product_def format_zero del: py_format_f.simps)

subsection \<open>\<open>format_order_details\<close>\<close>













section \<open>Properties of the session and the client\<close>

lemma io_bind_Inr: "m w = (Inr x, w') \<Longrightarrow> io_bind m f w = f x w'"
  by (simp add: io_bind_def)

lemma io_bind_Inl: "m w = (Inl e, w') \<Longrightarrow> io_bind m f w = (Inl e, w')"
  by (simp add: io_bind_def)

lemma io_bind_of_Inr [simp]: "io_bind (io_of (Inr x)) f = f x"
  by (simp add: io_bind_def io_of_def)

lemma io_bind_of_Inl [simp]: "io_bind (io_of (Inl e)) f = io_raise e"
  by (simp add: io_bind_def io_of_def io_raise_def)

lemma io_bind_return [simp]: "io_bind (io_return x) f = f x"
  by (simp add: io_bind_def io_return_def)

lemma io_bind_eq_Inr:
  "io_bind m f w = (Inr y, w'') \<longleftrightarrow> (\<exists>x w'. m w = (Inr x, w') \<and> f x w' = (Inr y, w''))"
  by (cases "m w") (auto simp: io_bind_def split: sum.splits)

lemma io_of_eq: "io_of r w = (r', w') \<longleftrightarrow> r = r' \<and> w = w'"
  by (auto simp: io_of_def)

text \<open>The definitions that a run of the client on a concrete world unfolds.\<close>

lemmas run_defs =
  get_common_headers_def uuid4_def io_bind_def io_return_def io_of_def io_raise_def
  session_get_def session_post_def send_def checked_json_def raise_for_status_def
  resp_json_def set_header_def auth_headers_def world_of_def answers_def
  numbered_uuid_def str_nat.simps digit_char_def BASE_URL_def SEARCH_API_URL_def
  login_payload_def header_of_def Let_def

subsection \<open>\<open>login\<close>\<close>

lemma login_no_redirect:
  assumes "login_post rp user pw w = (Inr (headers, JObj kvs), w')"
    and "map_of kvs ''RedirectUrl'' = None"
  shows "login rp user pw w = (Inl (PyException (''Login failed: '' @ rp (JObj kvs))), w')"
proof -
  have "''RedirectUrl'' \<notin> set (map fst kvs)"
    using assms(2) by (simp add: map_of_eq_None_iff)
  then show ?thesis
    using assms(1) by (simp add: login_def io_bind_Inr io_raise_def)
qed

lemma main_login_raises:
  assumes "login rp (username a) (password a) w = (Inl e, w')"
  shows "main rp (Parsed a) w = (1, w')"
  using assms by (cases e) (simp_all add: io_bind_Inl)

lemma login_post_bad_credentials:
  "\<exists>headers w'. login_post plain_repr ''u'' ''p'' (world_of bad_credentials_site)
     = (Inr (headers, JObj [(''Error'', JStr ''bad credentials'')]), w')"
  by (simp add: login_post_def run_defs bad_credentials_site_def)

text \<open>
  Claim C1, as the program has it. When the three steps up to the login POST go through
  (no transport failure, no status from 400 to 599, JSON bodies with the two tokens) and
  the answer to the POST is a JSON object without the key \<open>RedirectUrl\<close>, \<open>login\<close> does
  not return: it raises the built-in \<open>Exception\<close> with the message \<open>Login failed:\<close>
  followed by the answer, and sends no further request. The exception is not an
  \<open>HTTPError\<close>; the program defines no class of its own for it, and \<open>main\<close> turns it
  into the exit code 1 in the handler for any \<open>Exception\<close>.
\<close>

theorem login_without_redirect_raises:
  "login_post rp user pw w = (Inr (headers, JObj kvs), w')
     \<and> map_of kvs ''RedirectUrl'' = None \<longrightarrow>
   login rp user pw w = (Inl (PyException (''Login failed: '' @ rp (JObj kvs))), w')
   \<and> raised_class (fst (login rp user pw w)) = Some ''Exception''
   \<and> main rp (Parsed \<lparr>username = user, password = pw, command = c\<rparr>) w = (1, w')"
proof (intro impI, elim conjE)
  assume a: "login_post rp user pw w = (Inr (headers, JObj kvs), w')"
    and b: "map_of kvs ''RedirectUrl'' = None"
  have l: "login rp user pw w = (Inl (PyException (''Login failed: '' @ rp (JObj kvs))), w')"
    using a b by (rule login_no_redirect)
  have m: "main rp (Parsed \<lparr>username = user, password = pw, command = c\<rparr>) w = (1, w')"
    by (rule main_login_raises) (simp add: l)
  show "login rp user pw w = (Inl (PyException (''Login failed: '' @ rp (JObj kvs))), w')
   \<and> raised_class (fst (login rp user pw w)) = Some ''Exception''
   \<and> main rp (Parsed \<lparr>username = user, password = pw, command = c\<rparr>) w = (1, w')"
    using l m by simp
qed

theorem login_without_redirect_raises_witness:
  "raised_class (fst (login plain_repr ''u'' ''p'' (world_of bad_credentials_site)))
     = Some ''Exception''
   \<and> fst (main plain_repr (Parsed \<lparr>username = ''u'', password = ''p'', command = Basket\<rparr>)
              (world_of bad_credentials_site)) = 1"
proof -
  obtain headers w' where
    p: "login_post plain_repr ''u'' ''p'' (world_of bad_credentials_site)
        = (Inr (headers, JObj [(''Error'', JStr ''bad credentials'')]), w')"
    using login_post_bad_credentials by blast
  have n: "map_of [(''Error'', JStr ''bad credentials'')] ''RedirectUrl'' = None"
    by simp
  from login_without_redirect_raises
         [of plain_repr "''u''" "''p''" "world_of bad_credentials_site" headers
             "[(''Error'', JStr ''bad credentials'')]" w' Basket] p n
  show ?thesis by simp
qed

text \<open>
  Claim C1 as stated asks for a distinct \<open>AuthError\<close>. On the answer
  \<open>{"Error": "bad credentials"}\<close> to the login POST the exception that \<open>login\<close> raises
  is of the class \<open>Exception\<close>.
\<close>

theorem login_raises_plain_exception_counterexample:
  "fst (login plain_repr ''u'' ''p'' (world_of bad_credentials_site))
     = Inl (PyException
             (''Login failed: '' @ plain_repr (JObj [(''Error'', JStr ''bad credentials'')])))
   \<and> raised_class (fst (login plain_repr ''u'' ''p'' (world_of bad_credentials_site)))
       = Some ''Exception''
   \<and> raised_class (fst (login plain_repr ''u'' ''p'' (world_of bad_credentials_site)))
       \<noteq> Some ''AuthError''"
  by (simp add: login_def login_post_def run_defs bad_credentials_site_def)

text \<open>
  Claim C5 against the program. On a site where the login goes through, with a random
  source that never repeats an identifier, \<open>login\<close> sends five requests; the first four
  carry four different correlation identifiers, and the fifth, the second fetch of the
  anti-forgery token, carries the identifier of the fourth again: nothing draws a new
  one between the two.
\<close>

theorem login_reuses_correlation_id:
  "fst (login plain_repr ''u'' ''p'' (world_of shop_site))
     = Inr \<lparr>xsrf_token = JStr ''xsrf'', bearer_token = JStr ''token''\<rparr>
   \<and> map req_url (sent (snd (login plain_repr ''u'' ''p'' (world_of shop_site))))
     = [''https://www.nemlig.com/webapi/AntiForgery'',
        ''https://www.nemlig.com/webapi/Token'',
        ''https://www.nemlig.com/webapi/login'',
        ''https://www.nemlig.com/webapi/Token'',
        ''https://www.nemlig.com/webapi/AntiForgery'']
   \<and> map (header_of ''X-Correlation-Id'')
         (sent (snd (login plain_repr ''u'' ''p'' (world_of shop_site))))
     = [Some (JStr ''uuid-0''), Some (JStr ''uuid-1''), Some (JStr ''uuid-2''),
        Some (JStr ''uuid-3''), Some (JStr ''uuid-3'')]"
  by (simp add: login_def login_post_def run_defs shop_site_def shop_doc_def)

subsection \<open>\<open>get_product_details\<close>\<close>

lemma raises_not_found_simps [simp]:
  "raises_not_found (Inl e) = is_not_found e" "raises_not_found (Inr x) = False"
  by (simp_all add: raises_not_found_def)

lemma nf_bind:
  assumes "\<not> raises_not_found (fst (m w))"
    and "\<And>x w'. m w = (Inr x, w') \<Longrightarrow> \<not> raises_not_found (fst (f x w'))"
  shows "\<not> raises_not_found (fst (io_bind m f w))"
  using assms by (cases "m w") (auto simp: io_bind_def split: sum.splits)

lemma nf_pure:
  "\<not> raises_not_found (py_get v k d)" "\<not> raises_not_found (py_getitem v k)"
  "\<not> raises_not_found (py_iter v)" "\<not> raises_not_found (py_len v)"
  "\<not> raises_not_found (checked_json resp)"
  by (cases v; simp split: option.splits add: checked_json_def raise_for_status_def resp_json_def ebind_def)+

lemma nf_io_of: "\<not> raises_not_found r \<Longrightarrow> \<not> raises_not_found (fst (io_of r w))"
  by (simp add: io_of_def)

lemma nf_return: "\<not> raises_not_found (fst (io_return x w))"
  by (simp add: io_return_def)

lemma nf_uuid4: "\<not> raises_not_found (fst (uuid4 w))"
  by (simp add: uuid4_def)

lemma nf_send: "\<not> raises_not_found (fst (send req w))"
  by (simp add: send_def split: option.splits)

lemma nf_session_get: "\<not> raises_not_found (fst (session_get url hs ps w))"
  by (simp add: session_get_def nf_send)

lemma nf_auth_headers: "\<not> raises_not_found (fst (auth_headers rp auth w))"
  unfolding auth_headers_def get_common_headers_def Let_def
  by (intro nf_bind nf_return nf_uuid4)

lemma nf_get_app_settings: "\<not> raises_not_found (fst (get_app_settings rp auth w))"
  unfolding get_app_settings_def
  by (intro nf_bind nf_auth_headers nf_session_get nf_io_of nf_pure)

lemma nf_truthy_getitem: "\<not> raises_not_found (if c then py_getitem page k else Inr d)"
  by (simp add: nf_pure)

lemma nf_get_page_settings: "\<not> raises_not_found (fst (get_page_settings rp auth w))"
  unfolding get_page_settings_def
  by (intro nf_bind nf_auth_headers nf_get_app_settings nf_session_get nf_io_of nf_pure nf_return nf_truthy_getitem)

lemma nf_search_products: "\<not> raises_not_found (fst (search_products rp auth query limit w))"
  unfolding search_products_def Let_def
  by (intro nf_bind nf_get_page_settings nf_uuid4 nf_session_get nf_io_of nf_pure)

lemma nf_product_page: "\<not> raises_not_found (fst (product_page rp auth url w))"
  unfolding product_page_def Let_def
  by (intro nf_bind nf_get_page_settings nf_auth_headers nf_session_get nf_io_of nf_pure)

lemma nf_find_product_url: "\<not> raises_not_found (find_product_url pid ps)"
proof (induction ps)
  case Nil
  then show ?case by simp
next
  case (Cons p ps)
  then show ?case using nf_pure(1) [of p "''Id''" JNull] nf_pure(1) [of p "''Url''" JNull]
    by (cases "py_get p ''Id'' JNull") auto
qed

lemma nf_find_detail_spot: "\<not> raises_not_found (find_detail_spot items)"
proof (induction items)
  case Nil
  then show ?case by simp
next
  case (Cons p ps)
  then show ?case using nf_pure(1) [of p "''TemplateName''" JNull]
    by (cases "py_get p ''TemplateName'' JNull") auto
qed

lemma py_iter_len: "py_iter v = Inr xs \<Longrightarrow> py_len v = Inr (length xs)"
  by (cases v) auto

lemma find_detail_spot_None:
  "find_detail_spot items = Inr None \<longleftrightarrow> (\<forall>item\<in>set items. other_template item)"
proof (induction items)
  case Nil
  then show ?case by simp
next
  case (Cons item items)
  show ?case
  proof (cases "is_dict item")
    case False
    then show ?thesis by (simp add: py_get_not_dict other_template_def del: py_get.simps)
  next
    case True
    then obtain kvs where "item = JObj kvs" by (cases item) simp_all
    then show ?thesis using Cons.IH
      by (simp add: other_template_def py_eq_str_def)
  qed
qed

lemma emap_template_names:
  "\<forall>item\<in>set items. is_dict item \<Longrightarrow>
   \<exists>names. emap (\<lambda>item. py_get item ''TemplateName'' (JStr ''unknown'')) items = Inr names"
proof (induction items)
  case Nil
  then show ?case by simp
next
  case (Cons item items)
  then obtain kvs where "item = JObj kvs" by (cases item) simp_all
  moreover obtain names where "emap (\<lambda>item. py_get item ''TemplateName'' (JStr ''unknown'')) items = Inr names"
    using Cons by auto
  ultimately show ?case by simp
qed


lemma gpd_no_url:
  assumes "search_products rp auth pid 5 w = (Inr products, w1)"
    and "py_iter products = Inr ps" and "find_product_url pid ps = Inr url"
    and "\<not> py_truthy url"
  shows "get_product_details rp auth pid w
         = (Inl (ProductNotFoundError
                  (''Product '' @ pid @ '' not found. Search returned ''
                   @ str_nat (length ps) @ '' products but none matched ID.'')), w1)"
  using assms(2-4)
  by (simp add: get_product_details_def
      io_bind_Inr [of "search_products rp auth pid 5" w products w1, OF assms(1)]
      py_iter_len io_raise_def)

lemma gpd_page:
  assumes "search_products rp auth pid 5 w = (Inr products, w1)"
    and "py_iter products = Inr ps" and "find_product_url pid ps = Inr url"
    and "py_truthy url"
    and "product_page rp auth url w1 = (Inr data, w2)"
    and "py_get data ''content'' (JArr []) = Inr content"
    and "py_iter content = Inr items"
    and "find_detail_spot items = Inr found"
  shows "get_product_details rp auth pid w
         = (case found of
              Some item \<Rightarrow> (Inr item, w2)
            | None \<Rightarrow>
                io_bind (io_of (emap (\<lambda>item. py_get item ''TemplateName'' (JStr ''unknown'')) items))
                  (\<lambda>template_names.
                     io_raise (ProductNotFoundError
                       (''Product '' @ pid @ '': No '' @ [CHR 0x27] @ ''productdetailspot''
                        @ [CHR 0x27] @ '' in response. Found templates: ''
                        @ py_str rp (JArr template_names)))) w2)"
  using assms(2-4,6-8)
  by (simp add: get_product_details_def
      io_bind_Inr [of "search_products rp auth pid 5" w products w1, OF assms(1)]
      io_bind_Inr [of "product_page rp auth url" w1 data w2, OF assms(5)]
      io_return_def split: option.splits)

lemma gpd_no_spot:
  assumes "search_products rp auth pid 5 w = (Inr products, w1)"
    and "py_iter products = Inr ps" and "find_product_url pid ps = Inr url"
    and "py_truthy url"
    and "product_page rp auth url w1 = (Inr data, w2)"
    and "py_get data ''content'' (JArr []) = Inr content"
    and "py_iter content = Inr items"
    and "find_detail_spot items = Inr None"
  shows "raises_not_found (fst (get_product_details rp auth pid w))"
proof -
  have "\<forall>item\<in>set items. is_dict item"
    using assms(8) by (simp add: find_detail_spot_None other_template_def)
  then obtain names where
    "emap (\<lambda>item. py_get item ''TemplateName'' (JStr ''unknown'')) items = Inr names"
    using emap_template_names by blast
  then show ?thesis
    using gpd_page [OF assms] by (simp add: io_raise_def)
qed

lemma gpd_not_found_cases:
  assumes nf: "raises_not_found (fst (get_product_details rp auth pid w))"
  shows "\<exists>products w1 ps url.
           search_products rp auth pid 5 w = (Inr products, w1)
         \<and> py_iter products = Inr ps
         \<and> find_product_url pid ps = Inr url
         \<and> (\<not> py_truthy url
            \<or> (\<exists>data w2 content items.
                  product_page rp auth url w1 = (Inr data, w2)
                \<and> py_get data ''content'' (JArr []) = Inr content
                \<and> py_iter content = Inr items
                \<and> find_detail_spot items = Inr None))"
proof -
  obtain r w1 where s: "search_products rp auth pid 5 w = (r, w1)"
    by (cases "search_products rp auth pid 5 w")
  have "\<not> raises_not_found r" using nf_search_products [of rp auth pid 5 w] s by simp
  then obtain products where r: "r = Inr products"
  proof (cases r)
    case (Inl e)
    then have "get_product_details rp auth pid w = (Inl e, w1)"
      using s by (simp add: get_product_details_def io_bind_def)
    then show ?thesis using nf \<open>\<not> raises_not_found r\<close> Inl by simp
  next
    case (Inr products)
    then show ?thesis using that by simp
  qed
  note s' = s [unfolded r]
  note sb = io_bind_Inr [of "search_products rp auth pid 5" w products w1, OF s']
  note gpd1 = get_product_details_def
  obtain ps where ps: "py_iter products = Inr ps"
    using nf nf_pure(3) [of products] 
    by (cases "py_iter products") (simp_all add: gpd1 sb io_raise_def)
  obtain url where url: "find_product_url pid ps = Inr url"
    using nf nf_find_product_url [of pid ps] 
    by (cases "find_product_url pid ps") (simp_all add: gpd1 sb io_raise_def ps)
  show ?thesis
  proof (cases "py_truthy url")
    case False
    then show ?thesis using s' ps url by blast
  next
    case True
    obtain r2 w2 where pg: "product_page rp auth url w1 = (r2, w2)"
      by (cases "product_page rp auth url w1")
    have "\<not> raises_not_found r2" using nf_product_page [of rp auth url w1] pg by simp
    then obtain data where r2: "r2 = Inr data"
    proof (cases r2)
      case (Inl e)
      then have "get_product_details rp auth pid w = (Inl e, w2)"
        using pg by (simp add: gpd1 sb ps url True) (simp add: io_bind_def)
      then show ?thesis using nf \<open>\<not> raises_not_found r2\<close> Inl by simp
    next
      case (Inr data)
      then show ?thesis using that by simp
    qed
    note pg' = pg [unfolded r2]
    note pb = io_bind_Inr [of "product_page rp auth url" w1 data w2, OF pg']
    note g = gpd_page [OF s' ps url True pg']
    obtain content where c: "py_get data ''content'' (JArr []) = Inr content"
      using nf nf_pure(1) [of data "''content''" "JArr []"] 
      by (cases "py_get data ''content'' (JArr [])")
         (simp_all add: gpd1 sb ps url True pb io_raise_def)
    obtain items where i: "py_iter content = Inr items"
      using nf nf_pure(3) [of content] 
      by (cases "py_iter content")
         (simp_all add: gpd1 sb ps url True pb c io_raise_def)
    obtain found where f: "find_detail_spot items = Inr found"
      using nf nf_find_detail_spot [of items] 
      by (cases "find_detail_spot items")
         (simp_all add: gpd1 sb ps url True pb c i io_raise_def)
    have "found = None"
      using nf g [OF c i f] by (cases found) simp_all
    then show ?thesis using s' ps url pg' c i f by blast
  qed
qed


lemma other_product_obj:
  "other_product pid (JObj kvs) \<longleftrightarrow> map_of kvs ''Id'' \<noteq> Some (JStr pid)"
  by (auto simp: other_product_def split: option.splits)

lemma find_product_url_none:
  "\<forall>p\<in>set ps. other_product pid p \<Longrightarrow> find_product_url pid ps = Inr JNull"
proof (induction ps)
  case Nil
  then show ?case by simp
next
  case (Cons p ps)
  then obtain kvs where "p = JObj kvs" by (cases p) (simp_all add: other_product_def)
  then show ?case using Cons by (auto simp: other_product_def py_eq_str_def)
qed

lemma find_product_url_first_match:
  assumes "\<forall>p\<in>set pre. other_product pid p" and "map_of kvs ''Id'' = Some (JStr pid)"
  shows "find_product_url pid (pre @ JObj kvs # post) = Inr (field kvs ''Url'' JNull)"
  using assms(1)
proof (induction pre)
  case Nil
  then show ?case using assms(2) by (simp add: py_eq_str_def field_def)
next
  case (Cons p pre)
  then obtain kvs' where "p = JObj kvs'" by (cases p) (simp_all add: other_product_def)
  then show ?case using Cons by (auto simp: other_product_def py_eq_str_def)
qed

lemma find_product_url_cases:
  assumes "find_product_url pid ps = Inr url"
  shows "((\<forall>p\<in>set ps. other_product pid p) \<and> url = JNull)
       \<or> (\<exists>pre kvs post. ps = pre @ JObj kvs # post \<and> (\<forall>p\<in>set pre. other_product pid p)
             \<and> map_of kvs ''Id'' = Some (JStr pid) \<and> url = field kvs ''Url'' JNull)"
  using assms
proof (induction ps)
  case Nil
  then show ?case by simp
next
  case (Cons p ps)
  show ?case
  proof (cases "is_dict p")
    case False
    then show ?thesis using Cons.prems by (simp add: py_get_not_dict del: py_get.simps)
  next
    case True
    then obtain kvs where p: "p = JObj kvs" by (cases p) simp_all
    show ?thesis
    proof (cases "map_of kvs ''Id'' = Some (JStr pid)")
      case True
      then have "url = field kvs ''Url'' JNull"
        using Cons.prems p by (simp add: py_eq_str_def field_def)
      then have "p # ps = [] @ JObj kvs # ps \<and> (\<forall>q\<in>set []. other_product pid q)
             \<and> map_of kvs ''Id'' = Some (JStr pid) \<and> url = field kvs ''Url'' JNull"
        using p True by simp
      then show ?thesis by blast
    next
      case False
      then have o: "other_product pid p" using p by (simp add: other_product_obj)
      have "find_product_url pid ps = Inr url"
        using Cons.prems p False by (auto simp: py_eq_str_def split: option.splits)
      from Cons.IH [OF this] show ?thesis
      proof
        assume "(\<forall>p\<in>set ps. other_product pid p) \<and> url = JNull"
        then show ?thesis using o by simp
      next
        assume "\<exists>pre kvs post. ps = pre @ JObj kvs # post \<and> (\<forall>p\<in>set pre. other_product pid p)
             \<and> map_of kvs ''Id'' = Some (JStr pid) \<and> url = field kvs ''Url'' JNull"
        then obtain pre kvs' post where h: "ps = pre @ JObj kvs' # post"
            "\<forall>p\<in>set pre. other_product pid p" "map_of kvs' ''Id'' = Some (JStr pid)"
            "url = field kvs' ''Url'' JNull"
          by blast
        have "p # ps = (p # pre) @ JObj kvs' # post \<and> (\<forall>q\<in>set (p # pre). other_product pid q)
             \<and> map_of kvs' ''Id'' = Some (JStr pid) \<and> url = field kvs' ''Url'' JNull"
          using h o by simp
        then show ?thesis by blast
      qed
    qed
  qed
qed

text \<open>The search on the example site, for any query.\<close>

lemma search_shop:
  "fst (search_products plain_repr demo_auth q 5 (world_of shop_site))
     = Inr (JArr [JObj [(''Id'', JStr ''701025'')]])"
  "map req_url (sent (snd (search_products plain_repr demo_auth q 5 (world_of shop_site))))
     = [''https://www.nemlig.com/webapi/v2/AppSettings/Website'',
        ''https://www.nemlig.com/'',
        ''https://webapi.prod.knl.nemlig.it/searchgateway/api/search'']"
  by (simp_all add: search_products_def get_page_settings_def get_app_settings_def run_defs
      shop_site_def shop_doc_def demo_auth_def)

lemma find_product_url_iff:
  "find_product_url product_id qs = Inr found
   \<longleftrightarrow> ((\<forall>p\<in>set qs. other_product product_id p) \<and> found = JNull)
     \<or> (\<exists>pre kvs post.
           qs = pre @ JObj kvs # post
         \<and> (\<forall>p\<in>set pre. other_product product_id p)
         \<and> map_of kvs ''Id'' = Some (JStr product_id)
         \<and> found = field kvs ''Url'' JNull)"
  (is "?L \<longleftrightarrow> ?A \<or> ?B")
proof
  assume ?L
  then show "?A \<or> ?B" by (rule find_product_url_cases)
next
  assume "?A \<or> ?B"
  then show ?L
  proof
    assume ?A
    then show ?L using find_product_url_none [of qs product_id] by simp
  next
    assume ?B
    then obtain pre kvs post where
      q: "qs = pre @ JObj kvs # post"
      and o: "\<forall>p\<in>set pre. other_product product_id p"
      and i: "map_of kvs ''Id'' = Some (JStr product_id)"
      and f: "found = field kvs ''Url'' JNull"
      by blast
    show ?L unfolding q f using o i by (rule find_product_url_first_match)
  qed
qed

lemma gpd_not_found_iff:
  "raises_not_found (fst (get_product_details rp auth product_id w))
   \<longleftrightarrow>
   (\<exists>products w1 ps url.
        search_products rp auth product_id 5 w = (Inr products, w1)
      \<and> py_iter products = Inr ps
      \<and> find_product_url product_id ps = Inr url
      \<and> (\<not> py_truthy url
         \<or> (\<exists>data w2 content items.
               product_page rp auth url w1 = (Inr data, w2)
             \<and> py_get data ''content'' (JArr []) = Inr content
             \<and> py_iter content = Inr items
             \<and> (\<forall>item\<in>set items. other_template item))))"
  (is "?L \<longleftrightarrow> ?R")
proof
  assume ?L
  from gpd_not_found_cases [OF this] obtain products w1 ps url where
    s: "search_products rp auth product_id 5 w = (Inr products, w1)"
    and i: "py_iter products = Inr ps"
    and f: "find_product_url product_id ps = Inr url"
    and c: "\<not> py_truthy url
         \<or> (\<exists>data w2 content items.
               product_page rp auth url w1 = (Inr data, w2)
             \<and> py_get data ''content'' (JArr []) = Inr content
             \<and> py_iter content = Inr items
             \<and> find_detail_spot items = Inr None)"
    by (elim exE conjE)
  have "\<not> py_truthy url
         \<or> (\<exists>data w2 content items.
               product_page rp auth url w1 = (Inr data, w2)
             \<and> py_get data ''content'' (JArr []) = Inr content
             \<and> py_iter content = Inr items
             \<and> (\<forall>item\<in>set items. other_template item))"
    using c unfolding find_detail_spot_None .
  with s i f show ?R
    by (intro exI [of _ products] exI [of _ w1] exI [of _ ps] exI [of _ url] conjI)
next
  assume ?R
  then obtain products w1 ps url where
    s: "search_products rp auth product_id 5 w = (Inr products, w1)"
    and i: "py_iter products = Inr ps"
    and f: "find_product_url product_id ps = Inr url"
    and c: "\<not> py_truthy url
         \<or> (\<exists>data w2 content items.
               product_page rp auth url w1 = (Inr data, w2)
             \<and> py_get data ''content'' (JArr []) = Inr content
             \<and> py_iter content = Inr items
             \<and> (\<forall>item\<in>set items. other_template item))"
    by (elim exE conjE)
  show ?L
  proof (cases "py_truthy url")
    case False
    then show ?thesis using gpd_no_url [OF s i f] by simp
  next
    case True
    with c obtain data w2 content items where
      p: "product_page rp auth url w1 = (Inr data, w2)"
      and g: "py_get data ''content'' (JArr []) = Inr content"
      and t: "py_iter content = Inr items"
      and n: "\<forall>item\<in>set items. other_template item"
      by (elim disjE exE conjE) simp_all
    have "find_detail_spot items = Inr None"
      using n by (simp only: find_detail_spot_None)
    then show ?thesis by (rule gpd_no_spot [OF s i f True p g t])
  qed
qed

lemma gpd_no_match:
  assumes "fst (search_products rp auth product_id 5 w) = Inr (JArr qs)"
    and "\<forall>p\<in>set qs. other_product product_id p"
  shows "raises_not_found (fst (get_product_details rp auth product_id w))"
proof -
  have s: "search_products rp auth product_id 5 w
           = (Inr (JArr qs), snd (search_products rp auth product_id 5 w))"
    using assms(1) by (cases "search_products rp auth product_id 5 w") simp
  have "find_product_url product_id qs = Inr JNull"
    using assms(2) by (rule find_product_url_none)
  from gpd_no_url [OF s _ this] show ?thesis by simp
qed

text \<open>
  Claim C10. When the search goes through and returns a list in which the first product
  whose \<open>Id\<close> equals the requested identifier has no \<open>Url\<close>, or the empty str as
  \<open>Url\<close>, \<open>get_product_details\<close> raises \<open>ProductNotFoundError\<close> with the message
  that none matched, and the world is left as the search left it: the product page is
  not requested. The products before the match are dicts with another \<open>Id\<close>; those after
  it may be anything.
\<close>

theorem get_product_details_match_without_url:
  "fst (search_products rp auth product_id 5 w) = Inr (JArr (pre @ JObj kvs # post))
     \<and> (\<forall>p\<in>set pre. other_product product_id p)
     \<and> map_of kvs ''Id'' = Some (JStr product_id)
     \<and> (map_of kvs ''Url'' = None \<or> map_of kvs ''Url'' = Some (JStr []))
   \<longrightarrow>
   get_product_details rp auth product_id w
   = (Inl (ProductNotFoundError
            (''Product '' @ product_id @ '' not found. Search returned ''
             @ str_nat (length (pre @ JObj kvs # post))
             @ '' products but none matched ID.'')),
      snd (search_products rp auth product_id 5 w))"
proof (intro impI, elim conjE)
  assume s: "fst (search_products rp auth product_id 5 w) = Inr (JArr (pre @ JObj kvs # post))"
    and o: "\<forall>p\<in>set pre. other_product product_id p"
    and i: "map_of kvs ''Id'' = Some (JStr product_id)"
    and u: "map_of kvs ''Url'' = None \<or> map_of kvs ''Url'' = Some (JStr [])"
  have s': "search_products rp auth product_id 5 w
            = (Inr (JArr (pre @ JObj kvs # post)), snd (search_products rp auth product_id 5 w))"
    using s by (cases "search_products rp auth product_id 5 w") simp
  have f: "find_product_url product_id (pre @ JObj kvs # post) = Inr (field kvs ''Url'' JNull)"
    using o i by (rule find_product_url_first_match)
  have t: "\<not> py_truthy (field kvs ''Url'' JNull)"
    using u by (auto simp: field_def)
  show "get_product_details rp auth product_id w
   = (Inl (ProductNotFoundError
            (''Product '' @ product_id @ '' not found. Search returned ''
             @ str_nat (length (pre @ JObj kvs # post))
             @ '' products but none matched ID.'')),
      snd (search_products rp auth product_id 5 w))"
    by (rule gpd_no_url [OF s' _ f t]) simp
qed

theorem get_product_details_match_without_url_witness:
  "fst (get_product_details plain_repr demo_auth ''701025'' (world_of shop_site))
   = Inl (ProductNotFoundError
           ''Product 701025 not found. Search returned 1 products but none matched ID.'')
   \<and> map req_url
        (sent (snd (get_product_details plain_repr demo_auth ''701025'' (world_of shop_site))))
     = [''https://www.nemlig.com/webapi/v2/AppSettings/Website'',
        ''https://www.nemlig.com/'',
        ''https://webapi.prod.knl.nemlig.it/searchgateway/api/search'']"
proof -
  have "fst (search_products plain_repr demo_auth ''701025'' 5 (world_of shop_site))
        = Inr (JArr ([] @ JObj [(''Id'', JStr ''701025'')] # []))"
    by (simp add: search_shop)
  moreover have "\<forall>p\<in>set []. other_product ''701025'' p"
    by simp
  moreover have "map_of [(''Id'', JStr ''701025'')] ''Id'' = Some (JStr ''701025'')"
    by simp
  moreover have "map_of [(''Id'', JStr ''701025'')] ''Url'' = None"
    by simp
  ultimately have "get_product_details plain_repr demo_auth ''701025'' (world_of shop_site)
   = (Inl (ProductNotFoundError
            (''Product '' @ ''701025'' @ '' not found. Search returned ''
             @ str_nat (length ([] @ JObj [(''Id'', JStr ''701025'')] # []))
             @ '' products but none matched ID.'')),
      snd (search_products plain_repr demo_auth ''701025'' 5 (world_of shop_site)))"
    using get_product_details_match_without_url
            [of plain_repr demo_auth "''701025''" "world_of shop_site" "[]"
                "[(''Id'', JStr ''701025'')]" "[]"]
    by blast
  then show ?thesis
    by (simp add: search_shop str_nat.simps digit_char_def)
qed

text \<open>
  Claim C2, as the program has it. \<open>get_product_details\<close> raises
  \<open>ProductNotFoundError\<close> exactly in two situations. In both the search (with
  \<open>take\<close> 5) has gone through and its result can be scanned up to the first product
  whose \<open>Id\<close> is the requested one. Either the scan leaves no usable URL: no product has
  the \<open>Id\<close>, or the first that has it has no \<open>Url\<close> or a false one (empty, \<open>null\<close>).
  Or the URL is there, the product page is fetched and decoded, and every item of its
  \<open>content\<close> is a dict with a \<open>TemplateName\<close> other than \<open>productdetailspot\<close>. What the
  scan of a list finds is spelled out, and in particular a search result without a
  product of the requested \<open>Id\<close>, such as the empty one, ends in
  \<open>ProductNotFoundError\<close>. Every other failure is an exception of another class.
\<close>

theorem get_product_details_not_found_iff:
  "(raises_not_found (fst (get_product_details rp auth product_id w))
     \<longleftrightarrow>
     (\<exists>products w1 ps url.
          search_products rp auth product_id 5 w = (Inr products, w1)
        \<and> py_iter products = Inr ps
        \<and> find_product_url product_id ps = Inr url
        \<and> (\<not> py_truthy url
           \<or> (\<exists>data w2 content items.
                 product_page rp auth url w1 = (Inr data, w2)
               \<and> py_get data ''content'' (JArr []) = Inr content
               \<and> py_iter content = Inr items
               \<and> (\<forall>item\<in>set items. other_template item)))))
   \<and> (find_product_url product_id qs = Inr found
        \<longleftrightarrow> ((\<forall>p\<in>set qs. other_product product_id p) \<and> found = JNull)
          \<or> (\<exists>pre kvs post.
                qs = pre @ JObj kvs # post
              \<and> (\<forall>p\<in>set pre. other_product product_id p)
              \<and> map_of kvs ''Id'' = Some (JStr product_id)
              \<and> found = field kvs ''Url'' JNull))
   \<and> (fst (search_products rp auth product_id 5 w) = Inr (JArr qs)
        \<and> (\<forall>p\<in>set qs. other_product product_id p)
        \<longrightarrow> raises_not_found (fst (get_product_details rp auth product_id w)))"
proof (intro conjI impI)
  show "raises_not_found (fst (get_product_details rp auth product_id w))
     \<longleftrightarrow>
     (\<exists>products w1 ps url.
          search_products rp auth product_id 5 w = (Inr products, w1)
        \<and> py_iter products = Inr ps
        \<and> find_product_url product_id ps = Inr url
        \<and> (\<not> py_truthy url
           \<or> (\<exists>data w2 content items.
                 product_page rp auth url w1 = (Inr data, w2)
               \<and> py_get data ''content'' (JArr []) = Inr content
               \<and> py_iter content = Inr items
               \<and> (\<forall>item\<in>set items. other_template item))))"
    by (rule gpd_not_found_iff)
next
  show "find_product_url product_id qs = Inr found
        \<longleftrightarrow> ((\<forall>p\<in>set qs. other_product product_id p) \<and> found = JNull)
          \<or> (\<exists>pre kvs post.
                qs = pre @ JObj kvs # post
              \<and> (\<forall>p\<in>set pre. other_product product_id p)
              \<and> map_of kvs ''Id'' = Some (JStr product_id)
              \<and> found = field kvs ''Url'' JNull)"
    by (rule find_product_url_iff)
next
  assume "fst (search_products rp auth product_id 5 w) = Inr (JArr qs)
        \<and> (\<forall>p\<in>set qs. other_product product_id p)"
  then show "raises_not_found (fst (get_product_details rp auth product_id w))"
    using gpd_no_match [of rp auth product_id w qs] by simp
qed

theorem get_product_details_not_found_iff_witness:
  "raises_not_found
     (fst (get_product_details plain_repr demo_auth ''999999'' (world_of shop_site)))"
proof -
  have a: "fst (search_products plain_repr demo_auth ''999999'' 5 (world_of shop_site))
        = Inr (JArr [JObj [(''Id'', JStr ''701025'')]])"
    by (simp add: search_shop)
  have b: "\<forall>p\<in>set [JObj [(''Id'', JStr ''701025'')]]. other_product ''999999'' p"
    by (simp add: other_product_def)
  note th = get_product_details_not_found_iff
              [of plain_repr demo_auth "''999999''" "world_of shop_site"
                  "[JObj [(''Id'', JStr ''701025'')]]", THEN conjunct2, THEN conjunct2]
  show ?thesis by (rule th [THEN mp, OF conjI [OF a b]])
qed

text \<open>
  Claim C2 as stated fails on the example site for the identifier 701025: the search
  result holds a product with exactly this \<open>Id\<close>, and the page the site would serve has
  the \<open>productdetailspot\<close> item, so neither condition of the claim holds; yet the product
  has no \<open>Url\<close>, and \<open>get_product_details\<close> raises \<open>ProductNotFoundError\<close> after the three
  requests of the search.
\<close>

theorem get_product_details_exactly_when_counterexample:
  "fst (search_products plain_repr demo_auth ''701025'' 5 (world_of shop_site))
     = Inr (JArr [JObj [(''Id'', JStr ''701025'')]])
   \<and> py_get (shop_site (BASE_URL @ ''/'')) ''content'' (JArr [])
     = Inr (JArr [JObj [(''TemplateName'', JStr ''productdetailspot'')]])
   \<and> fst (get_product_details plain_repr demo_auth ''701025'' (world_of shop_site))
     = Inl (ProductNotFoundError
             ''Product 701025 not found. Search returned 1 products but none matched ID.'')
   \<and> length
        (sent (snd (get_product_details plain_repr demo_auth ''701025'' (world_of shop_site))))
     = 3"
  by (simp add: get_product_details_def search_products_def get_page_settings_def
      get_app_settings_def run_defs shop_site_def shop_doc_def demo_auth_def py_eq_str_def)

subsection \<open>\<open>cmd_history\<close>\<close>











section \<open>Exit codes\<close>

































end
